theory Spec2Isabelle
  imports Main "HOL-Library.Word"
begin

section \<open>The certificate registry: data model\<close>

text \<open>
  The contract \<^verbatim>\<open>ClaudeCodeCertificate\<close> (contracts/ClaudeCodeCertificate.sol) extends
  OpenZeppelin Contracts 4.9.6 (\<^verbatim>\<open>ERC721URIStorage\<close>, \<^verbatim>\<open>AccessControl\<close>, \<^verbatim>\<open>Counters\<close>).
  Solidity value types keep their width: an \<^verbatim>\<open>address\<close> is a 160-bit word, \<^verbatim>\<open>uint256\<close> and
  \<^verbatim>\<open>bytes32\<close> are 256-bit words. A Solidity \<^verbatim>\<open>mapping\<close> is total (an absent key reads as the
  zero value), so it is a HOL function. A \<^verbatim>\<open>string\<close> is its list of bytes, and
  \<^verbatim>\<open>bytes(x).length > 0\<close> is \<open>0 < length x\<close>. Names are the source's, without the leading
  underscore of private variables and internal functions; where a public function and an
  internal one share the rest of the name, the internal one has the suffix \<open>_internal\<close>.
\<close>

type_synonym address = "160 word"
type_synonym uint256 = "256 word"
type_synonym bytes32 = "256 word"
type_synonym bytes4 = "32 word"
type_synonym bytes = "8 word list"

record Participant =
  name :: string
  registeredAt :: uint256
  isRegistered :: bool

record Certificate =
  recipient :: address
  contentHash :: string
  cohort :: string
  issuedAt :: uint256
  isRevoked :: bool

text \<open>
  The events of the contract (lines 44 to 55) and of the library contracts it inherits.
  \<open>CertificateIssued\<close> carries the token id, the recipient, the cohort, the content hash and
  the timestamp, in the order of the declaration.
\<close>

datatype event =
  ParticipantRegistered address string uint256
  | CertificateIssued uint256 address string string uint256
  | CertificateRevoked uint256 uint256
  | Locked uint256
  | Transfer address address uint256
  | Approval address address uint256
  | ApprovalForAll address address bool
  | MetadataUpdate uint256
  | RoleGranted bytes32 address address
  | RoleRevoked bytes32 address address

text \<open>
  The state that a call can change and a revert restores: the contract's own storage
  variables, the variables it inherits (\<^verbatim>\<open>ERC721._owners\<close>, \<^verbatim>\<open>_balances\<close>,
  \<^verbatim>\<open>_tokenApprovals\<close>, \<^verbatim>\<open>_operatorApprovals\<close>, \<^verbatim>\<open>ERC721URIStorage._tokenURIs\<close>, the
  membership part of \<^verbatim>\<open>AccessControl._roles\<close>), and the log of emitted events, oldest first.
  The admin role of every role stays \<^verbatim>\<open>DEFAULT_ADMIN_ROLE\<close>, because the contract never
  calls \<^verbatim>\<open>_setRoleAdmin\<close>.
\<close>

record storage =
  tokenIdCounter :: uint256
  participants :: "address \<Rightarrow> Participant"
  certificates :: "uint256 \<Rightarrow> Certificate"
  participantCertificates :: "address \<Rightarrow> uint256 list"
  owners :: "uint256 \<Rightarrow> address"
  balances :: "address \<Rightarrow> uint256"
  tokenApprovals :: "uint256 \<Rightarrow> address"
  operatorApprovals :: "address \<Rightarrow> address \<Rightarrow> bool"
  tokenURIs :: "uint256 \<Rightarrow> string"
  roles :: "bytes32 \<Rightarrow> address \<Rightarrow> bool"
  logs :: "event list"

definition emit :: "event \<Rightarrow> storage \<Rightarrow> storage" where
  "emit e s = s\<lparr>logs := logs s @ [e]\<rparr>"

text \<open>
  A failed \<^verbatim>\<open>require\<close> reverts with its message. \<^verbatim>\<open>AccessControl._checkRole\<close> builds its
  message from the account and the role; the model keeps the two values instead of the
  formatted text. \<open>RevertData\<close> is a revert with raw data: the forwarded reason of a called
  contract, or no data at all.
\<close>

datatype error =
  Revert string
  | RevertData bytes
  | MissingRole address bytes32

text \<open>
  A function that writes returns its result together with the state it has reached: after
  \<open>Inr\<close> the state at the return, after \<open>Inl\<close> the state at the failed \<^verbatim>\<open>require\<close>, with the
  writes made before it. Discarding those writes is the business of the call frame
  (\<open>external\<close> below), not of the function. Views return \<open>error + 'a\<close> only.
\<close>

type_synonym 'a result = "(error + 'a) \<times> storage"

text \<open>
  The external call \<^verbatim>\<open>IERC721Receiver(to).onERC721Received(...)\<close> that
  \<^verbatim>\<open>ERC721._checkOnERC721Received\<close> makes: the called contract runs with the registry in the
  state of that moment, may call the registry back, and returns four bytes, reverts with
  some reason, or returns data that does not decode as \<^verbatim>\<open>bytes4\<close>. A \<open>callback\<close> gives the
  answer and the state of the registry when the call comes back.
\<close>

datatype reply =
  Returned bytes4
  | Reverted bytes
  | Undecodable

type_synonym callback = "storage \<Rightarrow> reply \<times> storage"

text \<open>
  The environment of one call: \<^verbatim>\<open>msg.sender\<close>, \<^verbatim>\<open>block.timestamp\<close>, and for every address
  the code that answers \<^verbatim>\<open>onERC721Received\<close> there (\<open>None\<close> when \<^verbatim>\<open>to.isContract()\<close> is false).
\<close>

record msg =
  sender :: address
  timestamp :: uint256
  onERC721Received :: "address \<Rightarrow> callback option"

text \<open>
  \<^verbatim>\<open>ISSUER_ROLE\<close> is \<^verbatim>\<open>keccak256("ISSUER_ROLE")\<close>; its value is the one the client configuration
  (frontend/src/config/contract.ts) records for the deployed contract.
\<close>

definition ISSUER_ROLE :: bytes32 where
  "ISSUER_ROLE = 0x114e74f6ea3bd819998f78687bfcb11b140da08e9b7d222fa9c1f1ba1f2aa122"

definition DEFAULT_ADMIN_ROLE :: bytes32 where
  "DEFAULT_ADMIN_ROLE = 0x00"

definition onERC721Received_selector :: bytes4 where
  "onERC721Received_selector = 0x150b7a02"

section \<open>Inherited library functions (OpenZeppelin Contracts 4.9.6)\<close>

subsection \<open>AccessControl\<close>

definition hasRole :: "storage \<Rightarrow> bytes32 \<Rightarrow> address \<Rightarrow> bool" where
  "hasRole s role account = roles s role account"

definition getRoleAdmin :: "storage \<Rightarrow> bytes32 \<Rightarrow> bytes32" where
  "getRoleAdmin s role = DEFAULT_ADMIN_ROLE"

text \<open>The modifier \<^verbatim>\<open>onlyRole(role)\<close>: \<open>None\<close> when the caller passes.\<close>

definition onlyRole :: "msg \<Rightarrow> storage \<Rightarrow> bytes32 \<Rightarrow> error option" where
  "onlyRole m s role =
     (if hasRole s role (sender m) then None else Some (MissingRole (sender m) role))"

definition grantRole_internal :: "msg \<Rightarrow> storage \<Rightarrow> bytes32 \<Rightarrow> address \<Rightarrow> storage" where
  "grantRole_internal m s role account =
     (if \<not> hasRole s role account
      then emit (RoleGranted role account (sender m))
             (s\<lparr>roles := (roles s)(role := (roles s role)(account := True))\<rparr>)
      else s)"

definition revokeRole_internal :: "msg \<Rightarrow> storage \<Rightarrow> bytes32 \<Rightarrow> address \<Rightarrow> storage" where
  "revokeRole_internal m s role account =
     (if hasRole s role account
      then emit (RoleRevoked role account (sender m))
             (s\<lparr>roles := (roles s)(role := (roles s role)(account := False))\<rparr>)
      else s)"

definition grantRole :: "msg \<Rightarrow> storage \<Rightarrow> bytes32 \<Rightarrow> address \<Rightarrow> unit result" where
  "grantRole m s role account =
     (case onlyRole m s (getRoleAdmin s role) of
        Some e \<Rightarrow> (Inl e, s)
      | None \<Rightarrow> (Inr (), grantRole_internal m s role account))"

definition revokeRole :: "msg \<Rightarrow> storage \<Rightarrow> bytes32 \<Rightarrow> address \<Rightarrow> unit result" where
  "revokeRole m s role account =
     (case onlyRole m s (getRoleAdmin s role) of
        Some e \<Rightarrow> (Inl e, s)
      | None \<Rightarrow> (Inr (), revokeRole_internal m s role account))"

definition renounceRole :: "msg \<Rightarrow> storage \<Rightarrow> bytes32 \<Rightarrow> address \<Rightarrow> unit result" where
  "renounceRole m s role account =
     (if account \<noteq> sender m
      then (Inl (Revert ''AccessControl: can only renounce roles for self''), s)
      else (Inr (), revokeRole_internal m s role account))"

subsection \<open>ERC721 and ERC721URIStorage\<close>

definition ownerOf_internal :: "storage \<Rightarrow> uint256 \<Rightarrow> address" where
  "ownerOf_internal s tokenId = owners s tokenId"

definition exists_internal :: "storage \<Rightarrow> uint256 \<Rightarrow> bool" where
  "exists_internal s tokenId \<longleftrightarrow> ownerOf_internal s tokenId \<noteq> 0"

definition ownerOf :: "storage \<Rightarrow> uint256 \<Rightarrow> error + address" where
  "ownerOf s tokenId =
     (let owner = ownerOf_internal s tokenId
      in if owner = 0 then Inl (Revert ''ERC721: invalid token ID'') else Inr owner)"

definition isApprovedForAll :: "storage \<Rightarrow> address \<Rightarrow> address \<Rightarrow> bool" where
  "isApprovedForAll s owner operator = operatorApprovals s owner operator"

definition getApproved :: "storage \<Rightarrow> uint256 \<Rightarrow> error + address" where
  "getApproved s tokenId =
     (if \<not> exists_internal s tokenId then Inl (Revert ''ERC721: invalid token ID'')
      else Inr (tokenApprovals s tokenId))"

definition isApprovedOrOwner :: "storage \<Rightarrow> address \<Rightarrow> uint256 \<Rightarrow> error + bool" where
  "isApprovedOrOwner s spender tokenId =
     (case ownerOf s tokenId of
        Inl e \<Rightarrow> Inl e
      | Inr owner \<Rightarrow>
          if spender = owner then Inr True
          else if isApprovedForAll s owner spender then Inr True
          else (case getApproved s tokenId of
                  Inl e \<Rightarrow> Inl e
                | Inr approved \<Rightarrow> Inr (approved = spender)))"

definition approve :: "msg \<Rightarrow> storage \<Rightarrow> address \<Rightarrow> uint256 \<Rightarrow> unit result" where
  "approve m s to tokenId =
     (case ownerOf s tokenId of
        Inl e \<Rightarrow> (Inl e, s)
      | Inr owner \<Rightarrow>
          if to = owner then (Inl (Revert ''ERC721: approval to current owner''), s)
          else if \<not> (sender m = owner \<or> isApprovedForAll s owner (sender m))
          then (Inl (Revert ''ERC721: approve caller is not token owner or approved for all''), s)
          else (Inr (), emit (Approval owner to tokenId)
                          (s\<lparr>tokenApprovals := (tokenApprovals s)(tokenId := to)\<rparr>)))"

definition setApprovalForAll :: "msg \<Rightarrow> storage \<Rightarrow> address \<Rightarrow> bool \<Rightarrow> unit result" where
  "setApprovalForAll m s operator approved =
     (if sender m = operator then (Inl (Revert ''ERC721: approve to caller''), s)
      else (Inr (), emit (ApprovalForAll (sender m) operator approved)
                      (s\<lparr>operatorApprovals :=
                          (operatorApprovals s)(sender m :=
                             (operatorApprovals s (sender m))(operator := approved))\<rparr>)))"

text \<open>
  \<^verbatim>\<open>_checkOnERC721Received\<close>: no call when \<open>to\<close> has no code; otherwise the external call, in
  a \<^verbatim>\<open>try\<close>. A revert of the called contract discards what it did to the registry and is
  forwarded (with the library's message when the reason is empty); a return that does not
  decode reverts with no data.
\<close>

definition checkOnERC721Received :: "msg \<Rightarrow> storage \<Rightarrow> address \<Rightarrow> bool result" where
  "checkOnERC721Received m s to =
     (case onERC721Received m to of
        None \<Rightarrow> (Inr True, s)
      | Some called \<Rightarrow>
          (case called s of
             (Returned retval, s') \<Rightarrow> (Inr (retval = onERC721Received_selector), s')
           | (Reverted reason, s') \<Rightarrow>
               if length reason = 0
               then (Inl (Revert ''ERC721: transfer to non ERC721Receiver implementer''), s)
               else (Inl (RevertData reason), s)
           | (Undecodable, s') \<Rightarrow> (Inl (RevertData []), s')))"

section \<open>The contract's own functions\<close>

text \<open>
  The override of the transfer hook (lines 188 to 198). The inherited
  \<^verbatim>\<open>ERC721._beforeTokenTransfer\<close> it calls first has an empty body in 4.9.6.
\<close>

definition beforeTokenTransfer :: "address \<Rightarrow> address \<Rightarrow> uint256 \<Rightarrow> uint256 \<Rightarrow> error option" where
  "beforeTokenTransfer from to tokenId batchSize =
     (if from = 0 then None else Some (Revert ''Certificates are non-transferable''))"

text \<open>\<^verbatim>\<open>ERC721._mint\<close>, \<^verbatim>\<open>_safeMint\<close>, \<^verbatim>\<open>_transfer\<close> and \<^verbatim>\<open>_safeTransfer\<close>, which run the hook.\<close>

definition mint :: "storage \<Rightarrow> address \<Rightarrow> uint256 \<Rightarrow> unit result" where
  "mint s to tokenId =
     (if to = 0 then (Inl (Revert ''ERC721: mint to the zero address''), s)
      else if exists_internal s tokenId then (Inl (Revert ''ERC721: token already minted''), s)
      else (case beforeTokenTransfer 0 to tokenId 1 of
              Some e \<Rightarrow> (Inl e, s)
            | None \<Rightarrow>
                if exists_internal s tokenId then (Inl (Revert ''ERC721: token already minted''), s)
                else (Inr (), emit (Transfer 0 to tokenId)
                                (s\<lparr>balances := (balances s)(to := balances s to + 1),
                                   owners := (owners s)(tokenId := to)\<rparr>))))"

definition safeMint :: "msg \<Rightarrow> storage \<Rightarrow> address \<Rightarrow> uint256 \<Rightarrow> unit result" where
  "safeMint m s to tokenId =
     (case mint s to tokenId of
        (Inl e, s') \<Rightarrow> (Inl e, s')
      | (Inr u, s') \<Rightarrow>
          (case checkOnERC721Received m s' to of
             (Inl e, s'') \<Rightarrow> (Inl e, s'')
           | (Inr ok, s'') \<Rightarrow>
               if \<not> ok then (Inl (Revert ''ERC721: transfer to non ERC721Receiver implementer''), s'')
               else (Inr (), s'')))"

definition transfer :: "storage \<Rightarrow> address \<Rightarrow> address \<Rightarrow> uint256 \<Rightarrow> unit result" where
  "transfer s from to tokenId =
     (case ownerOf s tokenId of
        Inl e \<Rightarrow> (Inl e, s)
      | Inr owner \<Rightarrow>
          if owner \<noteq> from then (Inl (Revert ''ERC721: transfer from incorrect owner''), s)
          else if to = 0 then (Inl (Revert ''ERC721: transfer to the zero address''), s)
          else (case beforeTokenTransfer from to tokenId 1 of
                  Some e \<Rightarrow> (Inl e, s)
                | None \<Rightarrow>
                    (case ownerOf s tokenId of
                       Inl e \<Rightarrow> (Inl e, s)
                     | Inr owner' \<Rightarrow>
                         if owner' \<noteq> from
                         then (Inl (Revert ''ERC721: transfer from incorrect owner''), s)
                         else (Inr (), emit (Transfer from to tokenId)
                                 (s\<lparr>tokenApprovals := (tokenApprovals s)(tokenId := 0),
                                    balances := ((balances s)(from := balances s from - 1))
                                      (to := ((balances s)(from := balances s from - 1)) to + 1),
                                    owners := (owners s)(tokenId := to)\<rparr>)))))"

definition safeTransfer :: "msg \<Rightarrow> storage \<Rightarrow> address \<Rightarrow> address \<Rightarrow> uint256 \<Rightarrow> bytes \<Rightarrow> unit result" where
  "safeTransfer m s from to tokenId data =
     (case transfer s from to tokenId of
        (Inl e, s') \<Rightarrow> (Inl e, s')
      | (Inr u, s') \<Rightarrow>
          (case checkOnERC721Received m s' to of
             (Inl e, s'') \<Rightarrow> (Inl e, s'')
           | (Inr ok, s'') \<Rightarrow>
               if \<not> ok then (Inl (Revert ''ERC721: transfer to non ERC721Receiver implementer''), s'')
               else (Inr (), s'')))"

text \<open>The three public transfer entry points of ERC721.\<close>

definition transferFrom :: "msg \<Rightarrow> storage \<Rightarrow> address \<Rightarrow> address \<Rightarrow> uint256 \<Rightarrow> unit result" where
  "transferFrom m s from to tokenId =
     (case isApprovedOrOwner s (sender m) tokenId of
        Inl e \<Rightarrow> (Inl e, s)
      | Inr ok \<Rightarrow>
          if \<not> ok then (Inl (Revert ''ERC721: caller is not token owner or approved''), s)
          else transfer s from to tokenId)"

definition safeTransferFrom_data ::
  "msg \<Rightarrow> storage \<Rightarrow> address \<Rightarrow> address \<Rightarrow> uint256 \<Rightarrow> bytes \<Rightarrow> unit result" where
  "safeTransferFrom_data m s from to tokenId data =
     (case isApprovedOrOwner s (sender m) tokenId of
        Inl e \<Rightarrow> (Inl e, s)
      | Inr ok \<Rightarrow>
          if \<not> ok then (Inl (Revert ''ERC721: caller is not token owner or approved''), s)
          else safeTransfer m s from to tokenId data)"

definition safeTransferFrom :: "msg \<Rightarrow> storage \<Rightarrow> address \<Rightarrow> address \<Rightarrow> uint256 \<Rightarrow> unit result" where
  "safeTransferFrom m s from to tokenId = safeTransferFrom_data m s from to tokenId []"

definition setTokenURI :: "storage \<Rightarrow> uint256 \<Rightarrow> string \<Rightarrow> unit result" where
  "setTokenURI s tokenId uri =
     (if \<not> exists_internal s tokenId
      then (Inl (Revert ''ERC721URIStorage: URI set of nonexistent token''), s)
      else (Inr (), emit (MetadataUpdate tokenId) (s\<lparr>tokenURIs := (tokenURIs s)(tokenId := uri)\<rparr>)))"



text \<open>The constructor (lines 61 to 64): every variable zero, the deployer granted both roles.\<close>

definition empty_storage :: storage where
  "empty_storage =
     \<lparr>tokenIdCounter = 0,
      participants = (\<lambda>_. \<lparr>name = [], registeredAt = 0, isRegistered = False\<rparr>),
      certificates = (\<lambda>_. \<lparr>recipient = 0, contentHash = [], cohort = [], issuedAt = 0, isRevoked = False\<rparr>),
      participantCertificates = (\<lambda>_. []),
      owners = (\<lambda>_. 0),
      balances = (\<lambda>_. 0),
      tokenApprovals = (\<lambda>_. 0),
      operatorApprovals = (\<lambda>_ _. False),
      tokenURIs = (\<lambda>_. []),
      roles = (\<lambda>_ _. False),
      logs = []\<rparr>"

definition constructor :: "msg \<Rightarrow> storage" where
  "constructor m =
     grantRole_internal m (grantRole_internal m empty_storage DEFAULT_ADMIN_ROLE (sender m))
       ISSUER_ROLE (sender m)"

text \<open>\<^verbatim>\<open>registerParticipant\<close> (lines 71 to 82).\<close>

definition registerParticipant :: "msg \<Rightarrow> storage \<Rightarrow> address \<Rightarrow> string \<Rightarrow> unit result" where
  "registerParticipant m s participant nm =
     (case onlyRole m s ISSUER_ROLE of
        Some e \<Rightarrow> (Inl e, s)
      | None \<Rightarrow>
          if isRegistered (participants s participant)
          then (Inl (Revert ''Participant already registered''), s)
          else if \<not> 0 < length nm then (Inl (Revert ''Name cannot be empty''), s)
          else (Inr (), emit (ParticipantRegistered participant nm (timestamp m))
                          (s\<lparr>participants := (participants s)(participant :=
                               \<lparr>name = nm, registeredAt = timestamp m, isRegistered = True\<rparr>)\<rparr>)))"

text \<open>
  \<^verbatim>\<open>issueCertificate\<close> (lines 92 to 122). \<^verbatim>\<open>Counters.increment\<close> adds one inside an
  \<^verbatim>\<open>unchecked\<close> block, so the addition is the word's wrapping addition. The external call of
  \<^verbatim>\<open>_safeMint\<close> (line 105) comes after the counter and the token ledger are written and
  before the certificate record (line 108) and the reverse index (line 116) are.
\<close>

definition issueCertificate ::
  "msg \<Rightarrow> storage \<Rightarrow> address \<Rightarrow> string \<Rightarrow> string \<Rightarrow> string \<Rightarrow> uint256 result" where
  "issueCertificate m s rcpt uri hash coh =
     (case onlyRole m s ISSUER_ROLE of
        Some e \<Rightarrow> (Inl e, s)
      | None \<Rightarrow>
          if \<not> isRegistered (participants s rcpt) then (Inl (Revert ''Recipient not registered''), s)
          else if \<not> 0 < length uri then (Inl (Revert ''Token URI cannot be empty''), s)
          else if \<not> 0 < length hash then (Inl (Revert ''Content hash cannot be empty''), s)
          else
            (let s1 = s\<lparr>tokenIdCounter := tokenIdCounter s + 1\<rparr>;
                 tokenId = tokenIdCounter s1
             in case safeMint m s1 rcpt tokenId of
                  (Inl e, s2) \<Rightarrow> (Inl e, s2)
                | (Inr u, s2) \<Rightarrow>
                    (case setTokenURI s2 tokenId uri of
                       (Inl e, s3) \<Rightarrow> (Inl e, s3)
                     | (Inr u, s3) \<Rightarrow>
                         (Inr tokenId,
                          emit (Locked tokenId)
                            (emit (CertificateIssued tokenId rcpt coh hash (timestamp m))
                               (s3\<lparr>certificates := (certificates s3)(tokenId :=
                                      \<lparr>recipient = rcpt, contentHash = hash, cohort = coh,
                                       issuedAt = timestamp m, isRevoked = False\<rparr>),
                                   participantCertificates := (participantCertificates s3)(rcpt :=
                                      participantCertificates s3 rcpt @ [tokenId])\<rparr>))))))"

text \<open>\<^verbatim>\<open>revokeCertificate\<close> (lines 128 to 135).\<close>

definition revokeCertificate :: "msg \<Rightarrow> storage \<Rightarrow> uint256 \<Rightarrow> unit result" where
  "revokeCertificate m s tokenId =
     (case onlyRole m s ISSUER_ROLE of
        Some e \<Rightarrow> (Inl e, s)
      | None \<Rightarrow>
          if \<not> exists_internal s tokenId then (Inl (Revert ''Certificate does not exist''), s)
          else if isRevoked (certificates s tokenId)
          then (Inl (Revert ''Certificate already revoked''), s)
          else (Inr (), emit (CertificateRevoked tokenId (timestamp m))
                          (s\<lparr>certificates := (certificates s)(tokenId :=
                               (certificates s tokenId)\<lparr>isRevoked := True\<rparr>)\<rparr>)))"

text \<open>
  The views (lines 146 to 183). \<^verbatim>\<open>verifyCertificate\<close> and \<^verbatim>\<open>getParticipantCertificates\<close> have
  no \<^verbatim>\<open>require\<close>; \<^verbatim>\<open>locked\<close> has one.
\<close>

definition verifyCertificate ::
  "storage \<Rightarrow> uint256 \<Rightarrow> error + (bool \<times> address \<times> string \<times> string \<times> uint256)" where
  "verifyCertificate s tokenId =
     (if \<not> exists_internal s tokenId then Inr (False, 0, [], [], 0)
      else (let cert = certificates s tokenId
            in Inr (\<not> isRevoked cert, recipient cert, contentHash cert, cohort cert, issuedAt cert)))"

definition getParticipantCertificates :: "storage \<Rightarrow> address \<Rightarrow> error + uint256 list" where
  "getParticipantCertificates s participant = Inr (participantCertificates s participant)"

definition locked :: "storage \<Rightarrow> uint256 \<Rightarrow> error + bool" where
  "locked s tokenId =
     (if \<not> exists_internal s tokenId then Inl (Revert ''Token does not exist'') else Inr True)"

section \<open>Calls, call frames and runs\<close>

text \<open>
  The state-changing external functions of the deployed contract. There is no burn entry
  point: \<^verbatim>\<open>_burn\<close> is internal and the contract never calls it.
\<close>

datatype call =
  RegisterParticipant address string
  | IssueCertificate address string string string
  | RevokeCertificate uint256
  | TransferFrom address address uint256
  | SafeTransferFrom address address uint256
  | SafeTransferFromData address address uint256 bytes
  | Approve address uint256
  | SetApprovalForAll address bool
  | GrantRole bytes32 address
  | RevokeRole bytes32 address
  | RenounceRole bytes32 address

datatype retval = NoValue | TokenId uint256

definition returning :: "('a \<Rightarrow> retval) \<Rightarrow> 'a result \<Rightarrow> retval result" where
  "returning f r = (case r of (Inl e, s) \<Rightarrow> (Inl e, s) | (Inr v, s) \<Rightarrow> (Inr (f v), s))"

text \<open>The body of the function a call selects.\<close>

fun execute :: "msg \<Rightarrow> storage \<Rightarrow> call \<Rightarrow> retval result" where
  "execute m s (RegisterParticipant a nm) = returning (\<lambda>_. NoValue) (registerParticipant m s a nm)"
| "execute m s (IssueCertificate r uri hash coh) = returning TokenId (issueCertificate m s r uri hash coh)"
| "execute m s (RevokeCertificate t) = returning (\<lambda>_. NoValue) (revokeCertificate m s t)"
| "execute m s (TransferFrom from to t) = returning (\<lambda>_. NoValue) (transferFrom m s from to t)"
| "execute m s (SafeTransferFrom from to t) = returning (\<lambda>_. NoValue) (safeTransferFrom m s from to t)"
| "execute m s (SafeTransferFromData from to t d) =
     returning (\<lambda>_. NoValue) (safeTransferFrom_data m s from to t d)"
| "execute m s (Approve to t) = returning (\<lambda>_. NoValue) (approve m s to t)"
| "execute m s (SetApprovalForAll operator approved) =
     returning (\<lambda>_. NoValue) (setApprovalForAll m s operator approved)"
| "execute m s (GrantRole role a) = returning (\<lambda>_. NoValue) (grantRole m s role a)"
| "execute m s (RevokeRole role a) = returning (\<lambda>_. NoValue) (revokeRole m s role a)"
| "execute m s (RenounceRole role a) = returning (\<lambda>_. NoValue) (renounceRole m s role a)"

text \<open>
  The frame of an external call, entered in state \<open>s\<close>: when the body reverts, the EVM
  restores \<open>s\<close>, with everything the body and the calls nested in it wrote and logged
  discarded; when it returns, the state it reached stands.
\<close>

definition external :: "storage \<Rightarrow> 'a result \<Rightarrow> 'a result" where
  "external s r = (case fst r of Inl e \<Rightarrow> (Inl e, s) | Inr v \<Rightarrow> r)"

text \<open>
  Who calls the registry. An \<open>action\<close> is one external call of a function of the registry:
  the caller, the call, and the code at the address that call hands a token to. That code
  (\<open>receiver\<close>) is absent, or a contract whose \<^verbatim>\<open>onERC721Received\<close> makes a list of calls of its
  own to the registry, each in its own frame, and then answers. What such a contract does
  may depend on what it reads; for any one execution it comes down to such a list.
  \<open>called\<close> is the callback a receiver amounts to, \<open>perform\<close> the call of an action at a
  given block timestamp.
\<close>

datatype receiver =
  NoCode
  | Code "action list" reply
and action =
  Call address call receiver

primrec called :: "receiver \<Rightarrow> uint256 \<Rightarrow> callback option"
  and perform :: "action \<Rightarrow> uint256 \<Rightarrow> storage \<Rightarrow> retval result" where
  "called NoCode ts = None"
| "called (Code script answer) ts =
     Some (\<lambda>s. (answer, foldl (\<lambda>s f. snd (f s)) s (map (\<lambda>a. perform a ts) script)))"
| "perform (Call a c code) ts =
     (\<lambda>s. external s
        (execute \<lparr>sender = a, timestamp = ts, onERC721Received = (\<lambda>_. called code ts)\<rparr> s c))"

definition environment :: "address \<Rightarrow> uint256 \<Rightarrow> receiver \<Rightarrow> msg" where
  "environment a ts code = \<lparr>sender = a, timestamp = ts, onERC721Received = (\<lambda>_. called code ts)\<rparr>"

text \<open>
  A transaction is an action at a block timestamp; a run is a list of transactions. The
  state after a transaction is the one its outermost frame leaves.
\<close>

definition step :: "storage \<Rightarrow> uint256 \<times> action \<Rightarrow> storage" where
  "step s tx = snd (perform (snd tx) (fst tx) s)"

fun run :: "storage \<Rightarrow> (uint256 \<times> action) list \<Rightarrow> storage" where
  "run s [] = s"
| "run s (tx # txs) = run (step s tx) txs"

text \<open>
  The history that the log keeps. \<open>minted\<close> lists the \<^verbatim>\<open>Transfer\<close> events from the zero
  address: \<^verbatim>\<open>_mint\<close> emits one when \<^verbatim>\<open>issueCertificate\<close> has just allocated the id, so this is
  the order in which the issuing calls were made. \<open>completed\<close> lists the
  \<^verbatim>\<open>CertificateIssued\<close> events, which \<^verbatim>\<open>issueCertificate\<close> emits just before it returns the
  id: this is the order in which the issuing calls returned. Both hold the events of
  committed calls only, since a revert discards the events of its frame.
\<close>

fun mint_of :: "event \<Rightarrow> (uint256 \<times> address) list" where
  "mint_of (Transfer from to t) = (if from = 0 then [(t, to)] else [])"
| "mint_of _ = []"

fun issue_of :: "event \<Rightarrow> (uint256 \<times> address) list" where
  "issue_of (CertificateIssued t r coh hash ts) = [(t, r)]"
| "issue_of _ = []"

definition minted :: "storage \<Rightarrow> (uint256 \<times> address) list" where
  "minted s = concat (map mint_of (logs s))"

definition completed :: "storage \<Rightarrow> (uint256 \<times> address) list" where
  "completed s = concat (map issue_of (logs s))"

section \<open>Vocabulary of the proofs\<close>

text \<open>
  \<open>quiet s s'\<close>: what every function but \<^verbatim>\<open>issueCertificate\<close> does to the state when it returns.
  It keeps the token ledger, the counter, the reverse index and every registered
  participant, logs no mint and no issuance, and changes a certificate record at most by
  setting \<open>isRevoked\<close> on an existing token.
\<close>

definition quiet :: "storage \<Rightarrow> storage \<Rightarrow> bool" where
  "quiet s s' \<longleftrightarrow>
     owners s' = owners s \<and> tokenIdCounter s' = tokenIdCounter s \<and>
     participantCertificates s' = participantCertificates s \<and>
     minted s' = minted s \<and> completed s' = completed s \<and>
     (\<exists>evs. logs s' = logs s @ evs) \<and>
     (\<forall>a. isRegistered (participants s a) \<longrightarrow> participants s' a = participants s a) \<and>
     (\<forall>t. certificates s' t = certificates s t \<or>
          (owners s t \<noteq> 0 \<and> certificates s' t = (certificates s t)\<lparr>isRevoked := True\<rparr>))"

text \<open>
  \<open>follows s s'\<close>: what holds between the state \<open>s\<close> in which a frame is entered and the state
  \<open>s'\<close> it leaves, whatever calls ran in between. Every token of \<open>s\<close> keeps its owner and its
  certificate record, up to \<open>isRevoked\<close> going from false to true; every registered
  participant is kept; the log and every reverse index only grow at the end.
\<close>

definition follows :: "storage \<Rightarrow> storage \<Rightarrow> bool" where
  "follows s s' \<longleftrightarrow>
     (\<forall>t. owners s t \<noteq> 0 \<longrightarrow>
          owners s' t = owners s t \<and>
          recipient (certificates s' t) = recipient (certificates s t) \<and>
          contentHash (certificates s' t) = contentHash (certificates s t) \<and>
          cohort (certificates s' t) = cohort (certificates s t) \<and>
          issuedAt (certificates s' t) = issuedAt (certificates s t) \<and>
          (isRevoked (certificates s t) \<longrightarrow> isRevoked (certificates s' t))) \<and>
     (\<forall>a. isRegistered (participants s a) \<longrightarrow> participants s' a = participants s a) \<and>
     (\<exists>evs. logs s' = logs s @ evs) \<and>
     (\<forall>r. \<exists>ids. participantCertificates s' r = participantCertificates s r @ ids)"

text \<open>
  \<open>ledger P s\<close> ties the storage to the logged history, also in the middle of a
  transaction, where \<open>P\<close> holds the issuances that have minted their token and not yet
  returned: the counter is the number of mints, the ids minted are 1, 2, 3, ... in order, a
  token exists exactly when it was minted and belongs to the address it was minted to, the
  mints are the completed issuances and the pending ones, the certificate of a completed
  issuance names its recipient, and the reverse index of an address lists the ids of the
  issuances to it in the order of their completion; no id is minted twice or completed
  twice.
\<close>

definition ledger :: "(uint256 \<times> address) set \<Rightarrow> storage \<Rightarrow> bool" where
  "ledger P s \<longleftrightarrow>
     tokenIdCounter s = of_nat (length (minted s)) \<and>
     length (minted s) \<le> 2 ^ 256 \<and>
     map fst (minted s) = map of_nat [1 ..< Suc (length (minted s))] \<and>
     distinct (map fst (minted s)) \<and>
     (\<forall>t. owners s t \<noteq> 0 \<longleftrightarrow> t \<in> fst ` set (minted s)) \<and>
     (\<forall>t r. (t, r) \<in> set (minted s) \<longrightarrow> owners s t = r) \<and>
     set (minted s) = set (completed s) \<union> P \<and>
     set (completed s) \<inter> P = {} \<and>
     distinct (map fst (completed s)) \<and>
     (\<forall>t r. (t, r) \<in> set (completed s) \<longrightarrow> recipient (certificates s t) = r) \<and>
     (\<forall>r. participantCertificates s r = map fst (filter (\<lambda>p. snd p = r) (completed s)))"

text \<open>
  A callback is \<open>sound\<close> when it does to the registry only what calls to the registry do.
\<close>

definition sound :: "callback \<Rightarrow> bool" where
  "sound cb \<longleftrightarrow> (\<forall>s. follows s (snd (cb s)) \<and> (\<forall>P. ledger P s \<longrightarrow> ledger P (snd (cb s))))"

definition sound_env :: "msg \<Rightarrow> bool" where
  "sound_env m \<longleftrightarrow> (\<forall>to cb. onERC721Received m to = Some cb \<longrightarrow> sound cb)"

text \<open>
  Concrete callers and the end-to-end scenario of the specification (register Alice, issue
  her a certificate), used to instantiate the theorems below. \<open>tx_by a c\<close> is the call \<open>c\<close>
  sent by \<open>a\<close>, with no code at the receiving address.
\<close>

definition deployer :: address where "deployer = 0xD0"
definition alice :: address where "alice = 0xA1"
definition bob :: address where "bob = 0xB0"
definition carol :: address where "carol = 0xC0"

definition sent_by :: "address \<Rightarrow> msg" where
  "sent_by a = environment a 1700000000 NoCode"

definition tx_by :: "address \<Rightarrow> call \<Rightarrow> uint256 \<times> action" where
  "tx_by a c = (1700000000, Call a c NoCode)"

definition registration :: "(uint256 \<times> action) list" where
  "registration = [tx_by deployer (RegisterParticipant alice ''Alice'')]"

definition issuance :: "uint256 \<times> action" where
  "issuance = tx_by deployer (IssueCertificate alice ''ipfs://X'' ''sha256:deadbeef'' ''2024-Q1'')"

definition revocation :: "uint256 \<times> action" where
  "revocation = tx_by deployer (RevokeCertificate 1)"

definition scenario :: "(uint256 \<times> action) list" where
  "scenario = registration @ [issuance]"

text \<open>
  The zero address can be registered (\<^verbatim>\<open>registerParticipant\<close> does not check it), and an
  issuance to it fails inside \<^verbatim>\<open>_mint\<close>, after the counter was incremented.
\<close>

definition zero_registration :: "(uint256 \<times> action) list" where
  "zero_registration = [tx_by deployer (RegisterParticipant 0 ''Nobody'')]"

text \<open>
  A longer run: two participants, a rejected issuance to an unregistered address, a
  revocation, and three successful issuances.
\<close>

definition busy_scenario :: "(uint256 \<times> action) list" where
  "busy_scenario =
     [tx_by deployer (RegisterParticipant alice ''Alice''),
      tx_by deployer (RegisterParticipant bob ''Bob''),
      tx_by deployer (IssueCertificate alice ''ipfs://X'' ''sha256:deadbeef'' ''2024-Q1''),
      tx_by deployer (IssueCertificate carol ''ipfs://Y'' ''sha256:00'' ''2024-Q1''),
      tx_by deployer (RevokeCertificate 1),
      tx_by deployer (IssueCertificate bob ''ipfs://Z'' ''sha256:01'' []),
      tx_by deployer (IssueCertificate alice ''ipfs://W'' ''sha256:02'' ''2024-Q2'')]"

text \<open>
  A recipient that is a contract: \<open>relay\<close> is registered and holds \<^verbatim>\<open>ISSUER_ROLE\<close>. In
  \<open>nested_issuance\<close> its \<^verbatim>\<open>onERC721Received\<close> issues a second certificate to itself before it
  accepts the first; in \<open>nested_revocation\<close> it revokes the certificate it is being
  issued before it accepts it.
\<close>

definition relay :: address where "relay = 0xE0"

definition relay_setup :: "(uint256 \<times> action) list" where
  "relay_setup =
     [tx_by deployer (GrantRole ISSUER_ROLE relay),
      tx_by deployer (RegisterParticipant relay ''Relay'')]"

definition accepting :: receiver where
  "accepting = Code [] (Returned onERC721Received_selector)"

definition nested_issuance :: "uint256 \<times> action" where
  "nested_issuance =
     (1700000000,
      Call deployer (IssueCertificate relay ''ipfs://A'' ''sha256:0a'' ''2024-Q1'')
        (Code [Call relay (IssueCertificate relay ''ipfs://B'' ''sha256:0b'' ''2024-Q1'') accepting]
           (Returned onERC721Received_selector)))"

definition nested_revocation :: "uint256 \<times> action" where
  "nested_revocation =
     (1700000000,
      Call deployer (IssueCertificate relay ''ipfs://A'' ''sha256:0a'' ''2024-Q1'')
        (Code [Call relay (RevokeCertificate 1) NoCode] (Returned onERC721Received_selector)))"

text \<open>
  An issuance to \<open>relay\<close> whose callback registers Bob and then answers with four bytes
  that are not the selector, so that \<^verbatim>\<open>_safeMint\<close> fails after the nested call has
  returned.
\<close>

definition refused_issuance :: "uint256 \<times> action" where
  "refused_issuance =
     (1700000000,
      Call deployer (IssueCertificate relay ''ipfs://A'' ''sha256:0a'' ''2024-Q1'')
        (Code [Call relay (RegisterParticipant bob ''Bob'') NoCode] (Returned 0)))"

section \<open>Effects of the operations\<close>

lemma minted_emit [simp]: "minted (emit e s) = minted s @ mint_of e"
  by (simp add: minted_def emit_def)

lemma completed_emit [simp]: "completed (emit e s) = completed s @ issue_of e"
  by (simp add: completed_def emit_def)

lemma emit_fields [simp]:
  "tokenIdCounter (emit e s) = tokenIdCounter s" "participants (emit e s) = participants s"
  "certificates (emit e s) = certificates s"
  "participantCertificates (emit e s) = participantCertificates s"
  "owners (emit e s) = owners s" "balances (emit e s) = balances s"
  "tokenApprovals (emit e s) = tokenApprovals s" "operatorApprovals (emit e s) = operatorApprovals s"
  "tokenURIs (emit e s) = tokenURIs s" "roles (emit e s) = roles s"
  "logs (emit e s) = logs s @ [e]"
  by (simp_all add: emit_def)

lemma minted_update [simp]:
  "minted (s\<lparr>tokenIdCounter := a\<rparr>) = minted s" "minted (s\<lparr>participants := b\<rparr>) = minted s"
  "minted (s\<lparr>certificates := c\<rparr>) = minted s" "minted (s\<lparr>participantCertificates := d\<rparr>) = minted s"
  "minted (s\<lparr>owners := e\<rparr>) = minted s" "minted (s\<lparr>balances := f\<rparr>) = minted s"
  "minted (s\<lparr>tokenApprovals := g\<rparr>) = minted s" "minted (s\<lparr>operatorApprovals := h\<rparr>) = minted s"
  "minted (s\<lparr>tokenURIs := i\<rparr>) = minted s" "minted (s\<lparr>roles := j\<rparr>) = minted s"
  by (simp_all add: minted_def)

lemma completed_update [simp]:
  "completed (s\<lparr>tokenIdCounter := a\<rparr>) = completed s" "completed (s\<lparr>participants := b\<rparr>) = completed s"
  "completed (s\<lparr>certificates := c\<rparr>) = completed s"
  "completed (s\<lparr>participantCertificates := d\<rparr>) = completed s"
  "completed (s\<lparr>owners := e\<rparr>) = completed s" "completed (s\<lparr>balances := f\<rparr>) = completed s"
  "completed (s\<lparr>tokenApprovals := g\<rparr>) = completed s"
  "completed (s\<lparr>operatorApprovals := h\<rparr>) = completed s"
  "completed (s\<lparr>tokenURIs := i\<rparr>) = completed s" "completed (s\<lparr>roles := j\<rparr>) = completed s"
  by (simp_all add: completed_def)

lemma quiet_refl: "quiet s s"
  by (simp add: quiet_def)

lemma follows_refl: "follows s s"
  by (simp add: follows_def)

lemma follows_trans:
  assumes "follows s s'" and "follows s' s''"
  shows "follows s s''"
proof -
  have tok: "owners s'' t = owners s t \<and>
          recipient (certificates s'' t) = recipient (certificates s t) \<and>
          contentHash (certificates s'' t) = contentHash (certificates s t) \<and>
          cohort (certificates s'' t) = cohort (certificates s t) \<and>
          issuedAt (certificates s'' t) = issuedAt (certificates s t) \<and>
          (isRevoked (certificates s t) \<longrightarrow> isRevoked (certificates s'' t))"
    if "owners s t \<noteq> 0" for t
  proof -
    from assms(1) that have 1: "owners s' t = owners s t \<and>
          recipient (certificates s' t) = recipient (certificates s t) \<and>
          contentHash (certificates s' t) = contentHash (certificates s t) \<and>
          cohort (certificates s' t) = cohort (certificates s t) \<and>
          issuedAt (certificates s' t) = issuedAt (certificates s t) \<and>
          (isRevoked (certificates s t) \<longrightarrow> isRevoked (certificates s' t))"
      unfolding follows_def by blast
    with that have "owners s' t \<noteq> 0" by simp
    with assms(2) have "owners s'' t = owners s' t \<and>
          recipient (certificates s'' t) = recipient (certificates s' t) \<and>
          contentHash (certificates s'' t) = contentHash (certificates s' t) \<and>
          cohort (certificates s'' t) = cohort (certificates s' t) \<and>
          issuedAt (certificates s'' t) = issuedAt (certificates s' t) \<and>
          (isRevoked (certificates s' t) \<longrightarrow> isRevoked (certificates s'' t))"
      unfolding follows_def by blast
    with 1 show ?thesis by simp
  qed
  have par: "participants s'' a = participants s a" if "isRegistered (participants s a)" for a
  proof -
    from assms(1) that have "participants s' a = participants s a" unfolding follows_def by blast
    moreover with that assms(2) have "participants s'' a = participants s' a"
      unfolding follows_def by simp
    ultimately show ?thesis by simp
  qed
  have lg: "\<exists>evs. logs s'' = logs s @ evs"
  proof -
    from assms(1) obtain e1 where "logs s' = logs s @ e1" unfolding follows_def by blast
    moreover from assms(2) obtain e2 where "logs s'' = logs s' @ e2" unfolding follows_def by blast
    ultimately have "logs s'' = logs s @ (e1 @ e2)" by simp
    then show ?thesis by blast
  qed
  have ix: "\<exists>ids. participantCertificates s'' r = participantCertificates s r @ ids" for r
  proof -
    from assms(1) obtain i1 where "participantCertificates s' r = participantCertificates s r @ i1"
      unfolding follows_def by blast
    moreover from assms(2) obtain i2 where "participantCertificates s'' r = participantCertificates s' r @ i2"
      unfolding follows_def by blast
    ultimately have "participantCertificates s'' r = participantCertificates s r @ (i1 @ i2)" by simp
    then show ?thesis by blast
  qed
  from tok par lg ix show ?thesis unfolding follows_def by blast
qed

lemma quiet_follows: "quiet s s' \<Longrightarrow> follows s s'"
  unfolding quiet_def follows_def
  by (intro conjI allI impI; (elim conjE)?) (metis Certificate.select_convs Certificate.surjective Certificate.update_convs(5) append_Nil2)+

lemma quiet_ledger:
  assumes "quiet s s'" and "ledger P s"
  shows "ledger P s'"
proof -
  from assms(1) have eq: "owners s' = owners s" "tokenIdCounter s' = tokenIdCounter s"
      "participantCertificates s' = participantCertificates s"
      "minted s' = minted s" "completed s' = completed s"
    and cert: "\<And>t. certificates s' t = certificates s t \<or>
          (owners s t \<noteq> 0 \<and> certificates s' t = (certificates s t)\<lparr>isRevoked := True\<rparr>)"
    by (auto simp: quiet_def)
  have rcp: "recipient (certificates s' t) = recipient (certificates s t)" for t
    using cert [of t] by auto
  show ?thesis
    using assms(2) unfolding ledger_def eq rcp by blast
qed

lemma registerParticipant_quiet: "registerParticipant m s a nm = (Inr u, s') \<Longrightarrow> quiet s s'"
  by (auto simp: registerParticipant_def quiet_def split: option.splits if_splits)

lemma revokeCertificate_quiet: "revokeCertificate m s t = (Inr u, s') \<Longrightarrow> quiet s s'"
  by (auto simp: revokeCertificate_def quiet_def exists_internal_def ownerOf_internal_def
      split: option.splits if_splits)

lemma approve_quiet: "approve m s to t = (Inr u, s') \<Longrightarrow> quiet s s'"
  by (auto simp: approve_def quiet_def split: sum.splits if_splits)

lemma setApprovalForAll_quiet: "setApprovalForAll m s operator b = (Inr u, s') \<Longrightarrow> quiet s s'"
  by (auto simp: setApprovalForAll_def quiet_def split: if_splits)

lemma grantRole_quiet: "grantRole m s role a = (Inr u, s') \<Longrightarrow> quiet s s'"
  by (auto simp: grantRole_def grantRole_internal_def quiet_def split: option.splits if_splits)

lemma revokeRole_quiet: "revokeRole m s role a = (Inr u, s') \<Longrightarrow> quiet s s'"
  by (auto simp: revokeRole_def revokeRole_internal_def quiet_def split: option.splits if_splits)

lemma renounceRole_quiet: "renounceRole m s role a = (Inr u, s') \<Longrightarrow> quiet s s'"
  by (auto simp: renounceRole_def revokeRole_internal_def quiet_def split: option.splits if_splits)

lemma returning_Inr: "returning f r = (Inr v, s') \<longleftrightarrow> (\<exists>u. v = f u \<and> r = (Inr u, s'))"
  by (cases r; cases "fst r") (auto simp: returning_def)

lemma returning_Inl: "returning f r = (Inl e, s') \<longleftrightarrow> r = (Inl e, s')"
  by (cases r; cases "fst r") (auto simp: returning_def)

text \<open>Failures before any write\<close>

lemma registerParticipant_Inl: "registerParticipant m s a nm = (Inl e, s') \<Longrightarrow> s' = s"
  by (auto simp: registerParticipant_def split: option.splits if_splits)

lemma revokeCertificate_Inl: "revokeCertificate m s t = (Inl e, s') \<Longrightarrow> s' = s"
  by (auto simp: revokeCertificate_def split: option.splits if_splits)

lemma transfer_Inl:
  "transfer s from to t = (Inl
     (if owners s t = 0 then Revert ''ERC721: invalid token ID''
      else if owners s t \<noteq> from then Revert ''ERC721: transfer from incorrect owner''
      else if to = 0 then Revert ''ERC721: transfer to the zero address''
      else Revert ''Certificates are non-transferable''), s)"
  by (simp add: transfer_def ownerOf_def ownerOf_internal_def beforeTokenTransfer_def Let_def)

lemma safeTransfer_Inl: "safeTransfer m s from to t d = transfer s from to t"
  by (simp add: safeTransfer_def transfer_Inl)

lemma transferFrom_Inl:
  "transferFrom m s f to t = (Inl
     (if owners s t = 0 then Revert ''ERC721: invalid token ID''
      else if \<not> (sender m = owners s t \<or> operatorApprovals s (owners s t) (sender m)
                 \<or> tokenApprovals s t = sender m)
        then Revert ''ERC721: caller is not token owner or approved''
      else if owners s t \<noteq> f then Revert ''ERC721: transfer from incorrect owner''
      else if to = 0 then Revert ''ERC721: transfer to the zero address''
      else Revert ''Certificates are non-transferable''), s)"
  by (simp add: transferFrom_def isApprovedOrOwner_def ownerOf_def ownerOf_internal_def
      isApprovedForAll_def getApproved_def exists_internal_def transfer_Inl Let_def)

lemma safeTransferFrom_data_Inl:
  "safeTransferFrom_data m s f to t d = transferFrom m s f to t"
  by (simp add: safeTransferFrom_data_def transferFrom_def safeTransfer_Inl split: sum.split)

lemma execute_transfer_eq:
  assumes "c = TransferFrom f to t \<or> c = SafeTransferFrom f to t \<or> c = SafeTransferFromData f to t d"
  shows "execute m s c = returning (\<lambda>_. NoValue) (transferFrom m s f to t)"
  using assms by (auto simp: safeTransferFrom_def safeTransferFrom_data_Inl)

lemma passes_checks_iff:
  "isApprovedOrOwner s (sender m) t = Inr True \<and> ownerOf s t = Inr f \<and> to \<noteq> 0 \<longleftrightarrow>
   owners s t \<noteq> 0 \<and> (sender m = owners s t \<or> operatorApprovals s (owners s t) (sender m)
       \<or> tokenApprovals s t = sender m) \<and> owners s t = f \<and> to \<noteq> 0"
  by (auto simp: isApprovedOrOwner_def ownerOf_def ownerOf_internal_def
      isApprovedForAll_def getApproved_def exists_internal_def Let_def split: if_splits)


text \<open>A returning callback check\<close>

lemma checkOnERC721Received_Inr:
  assumes "checkOnERC721Received m s to = (Inr ok, s')"
  shows "(onERC721Received m to = None \<and> s' = s) \<or>
         (\<exists>cb. onERC721Received m to = Some cb \<and> s' = snd (cb s))"
  using assms
  by (auto simp: checkOnERC721Received_def split: option.splits prod.splits reply.splits if_splits)

lemma issueCertificate_Inr:
  assumes "issueCertificate m s r uri h c = (Inr t, s')"
  obtains s2 s3 where
    "hasRole s ISSUER_ROLE (sender m)" "isRegistered (participants s r)" "0 < length uri" "0 < length h"
    "t = tokenIdCounter s + 1" "r \<noteq> 0" "owners s t = 0"
    "s2 = emit (Transfer 0 r t)
            (s\<lparr>tokenIdCounter := t, balances := (balances s)(r := balances s r + 1),
               owners := (owners s)(t := r)\<rparr>)"
    "checkOnERC721Received m s2 r = (Inr True, s3)"
    "owners s3 t \<noteq> 0"
    "s' = emit (Locked t) (emit (CertificateIssued t r c h (timestamp m))
            ((emit (MetadataUpdate t) (s3\<lparr>tokenURIs := (tokenURIs s3)(t := uri)\<rparr>))
               \<lparr>certificates := (certificates s3)(t :=
                   \<lparr>recipient = r, contentHash = h, cohort = c, issuedAt = timestamp m, isRevoked = False\<rparr>),
                participantCertificates := (participantCertificates s3)(r :=
                   participantCertificates s3 r @ [t])\<rparr>))"
  using assms
  by (auto simp: issueCertificate_def onlyRole_def safeMint_def mint_def setTokenURI_def
      exists_internal_def ownerOf_internal_def beforeTokenTransfer_def Let_def
      split: if_splits sum.splits option.splits prod.splits)

section \<open>Calls made from the receiver callback\<close>

lemma checkOnERC721Received_sound:
  assumes "sound_env m" and "checkOnERC721Received m s to = (Inr ok, s')"
  shows "follows s s'" and "ledger P s \<Longrightarrow> ledger P s'"
proof -
  from checkOnERC721Received_Inr [OF assms(2)]
  have "s' = s \<or> (\<exists>cb. sound cb \<and> s' = snd (cb s))"
    using assms(1) by (auto simp: sound_env_def)
  then show "follows s s'" and "ledger P s \<Longrightarrow> ledger P s'"
    by (auto simp: sound_def follows_refl)
qed

lemma word_one_in_image:
  fixes n :: nat assumes "n = 2 ^ 256"
  shows "(of_nat (Suc n) :: uint256) \<in> of_nat ` {1..n}"
proof -
  have "(of_nat (Suc n) :: uint256) = of_nat 1" using assms by simp
  moreover have "(1::nat) \<in> {1..n}" using assms by simp
  ultimately show ?thesis by (metis imageI)
qed

lemma issueCertificate_follows:
  assumes env: "sound_env m" and iss: "issueCertificate m s r uri h c = (Inr t, s')"
  shows "follows s s'"
proof -
  from iss obtain s2 s3 where fx:
    "r \<noteq> 0" "owners s t = 0"
    "s2 = emit (Transfer 0 r t)
            (s\<lparr>tokenIdCounter := t, balances := (balances s)(r := balances s r + 1),
               owners := (owners s)(t := r)\<rparr>)"
    "checkOnERC721Received m s2 r = (Inr True, s3)"
    "s' = emit (Locked t) (emit (CertificateIssued t r c h (timestamp m))
            ((emit (MetadataUpdate t) (s3\<lparr>tokenURIs := (tokenURIs s3)(t := uri)\<rparr>))
               \<lparr>certificates := (certificates s3)(t :=
                   \<lparr>recipient = r, contentHash = h, cohort = c, issuedAt = timestamp m, isRevoked = False\<rparr>),
                participantCertificates := (participantCertificates s3)(r :=
                   participantCertificates s3 r @ [t])\<rparr>))"
    by (rule issueCertificate_Inr) blast
  have a: "follows s s2"
    using fx(2) unfolding follows_def fx(3) by auto
  have b: "follows s2 s3" by (rule checkOnERC721Received_sound(1) [OF env fx(4)])
  show ?thesis
  proof -
    have ab: "follows s s3" by (rule follows_trans [OF a b])
    have tok: "owners s' u = owners s u \<and>
          recipient (certificates s' u) = recipient (certificates s u) \<and>
          contentHash (certificates s' u) = contentHash (certificates s u) \<and>
          cohort (certificates s' u) = cohort (certificates s u) \<and>
          issuedAt (certificates s' u) = issuedAt (certificates s u) \<and>
          (isRevoked (certificates s u) \<longrightarrow> isRevoked (certificates s' u))"
      if "owners s u \<noteq> 0" for u
    proof -
      from that fx(2) have "u \<noteq> t" by auto
      moreover from ab that have "owners s3 u = owners s u \<and>
          recipient (certificates s3 u) = recipient (certificates s u) \<and>
          contentHash (certificates s3 u) = contentHash (certificates s u) \<and>
          cohort (certificates s3 u) = cohort (certificates s u) \<and>
          issuedAt (certificates s3 u) = issuedAt (certificates s u) \<and>
          (isRevoked (certificates s u) \<longrightarrow> isRevoked (certificates s3 u))"
        unfolding follows_def by blast
      ultimately show ?thesis by (simp add: fx(5))
    qed
    have par: "participants s' a = participants s a" if "isRegistered (participants s a)" for a
      using ab that unfolding follows_def by (simp add: fx(5))
    have lg: "\<exists>evs. logs s' = logs s @ evs"
    proof -
      from ab obtain e1 where "logs s3 = logs s @ e1" unfolding follows_def by blast
      then have "logs s' = logs s @ (e1 @ [MetadataUpdate t, CertificateIssued t r c h (timestamp m), Locked t])"
        by (simp add: fx(5))
      then show ?thesis by blast
    qed
    have ix: "\<exists>ids. participantCertificates s' q = participantCertificates s q @ ids" for q
    proof -
      from ab obtain i1 where "participantCertificates s3 q = participantCertificates s q @ i1"
        unfolding follows_def by blast
      then have "participantCertificates s' q =
          participantCertificates s q @ (if q = r then i1 @ [t] else i1)"
        by (auto simp: fx(5))
      then show ?thesis by blast
    qed
    from tok par lg ix show ?thesis unfolding follows_def by blast
  qed
qed

lemma ledger_after_mint:
  assumes inv: "ledger P s" and fresh: "owners s t = 0" and r: "r \<noteq> 0"
    and t: "t = tokenIdCounter s + 1"
    and s2: "s2 = emit (Transfer 0 r t)
            (s\<lparr>tokenIdCounter := t, balances := b, owners := (owners s)(t := r)\<rparr>)"
  shows "ledger (insert (t, r) P) s2" and "(t, r) \<notin> P" and "t \<notin> fst ` set (minted s)"
proof -
  let ?n = "length (minted s)"
  from inv have cnt: "tokenIdCounter s = of_nat ?n" and len: "?n \<le> 2 ^ 256"
    and ids: "map fst (minted s) = map of_nat [1 ..< Suc ?n]"
    and dist: "distinct (map fst (minted s))"
    and ex: "\<And>u. owners s u \<noteq> 0 \<longleftrightarrow> u \<in> fst ` set (minted s)"
    and own: "\<And>u q. (u, q) \<in> set (minted s) \<Longrightarrow> owners s u = q"
    and pend: "set (minted s) = set (completed s) \<union> P" "set (completed s) \<inter> P = {}"
    and dc: "distinct (map fst (completed s))"
    and rec: "\<And>u q. (u, q) \<in> set (completed s) \<Longrightarrow> recipient (certificates s u) = q"
    and idx: "\<And>q. participantCertificates s q = map fst (filter (\<lambda>p. snd p = q) (completed s))"
    unfolding ledger_def by blast+
  have m2: "minted s2 = minted s @ [(t, r)]" and c2: "completed s2 = completed s"
    by (simp_all add: s2)
  have tn: "t = of_nat (Suc ?n)" using t cnt by simp
  have img: "fst ` set (minted s) = of_nat ` {1..?n}"
  proof -
    have "fst ` set (minted s) = set (map fst (minted s))" by simp
    also have "\<dots> = of_nat ` set [1 ..< Suc ?n]" unfolding ids by simp
    also have "set [1 ..< Suc ?n] = {1..?n}" by auto
    finally show ?thesis .
  qed
  show fr: "t \<notin> fst ` set (minted s)" using ex [of t] fresh by simp
  then show np: "(t, r) \<notin> P" using pend(1) by force
  have len': "Suc ?n \<le> 2 ^ 256"
  proof (rule ccontr)
    assume "\<not> Suc ?n \<le> 2 ^ 256"
    with len have "?n = 2 ^ 256" by simp
    from word_one_in_image [OF this] fr tn img show False by simp
  qed
  have 1: "tokenIdCounter s2 = of_nat (length (minted s2))" by (simp add: m2 s2 tn)
  have 2: "length (minted s2) \<le> 2 ^ 256" using len' by (simp add: m2)
  have 3: "map fst (minted s2) = map of_nat [1 ..< Suc (length (minted s2))]"
    using ids tn by (simp add: m2)
  have 4: "distinct (map fst (minted s2))" using dist fr by (simp add: m2)
  have 5: "owners s2 u \<noteq> 0 \<longleftrightarrow> u \<in> fst ` set (minted s2)" for u
    using ex [of u] r by (auto simp: m2 s2)
  have 6: "owners s2 u = q" if "(u, q) \<in> set (minted s2)" for u q
  proof (cases "(u, q) \<in> set (minted s)")
    case True
    then have "u \<noteq> t" using fr by force
    with own [OF True] show ?thesis by (simp add: s2)
  next
    case False
    with that have "u = t" "q = r" by (auto simp: m2)
    then show ?thesis by (simp add: s2)
  qed
  have 7: "set (minted s2) = set (completed s2) \<union> insert (t, r) P"
    using pend(1) by (auto simp: m2 c2)
  have 8: "set (completed s2) \<inter> insert (t, r) P = {}"
  proof -
    have "(t, r) \<notin> set (completed s)" using pend(1) fr by force
    with pend(2) show ?thesis by (auto simp: c2)
  qed
  have 9: "recipient (certificates s2 u) = q" if "(u, q) \<in> set (completed s2)" for u q
    using rec that by (simp add: c2 s2)
  have 10: "participantCertificates s2 q = map fst (filter (\<lambda>p. snd p = q) (completed s2))" for q
    using idx by (simp add: c2 s2)
  have 11: "distinct (map fst (completed s2))" using dc by (simp add: c2)
  show "ledger (insert (t, r) P) s2"
    unfolding ledger_def using 1 2 3 4 5 6 7 8 9 10 11 by blast
qed

lemma ledger_after_record:
  assumes inv: "ledger (insert (t, r) P) s3" and np: "(t, r) \<notin> P"
    and s': "s' = emit (Locked t) (emit (CertificateIssued t r c h ts)
            ((emit (MetadataUpdate t) (s3\<lparr>tokenURIs := u3\<rparr>))
               \<lparr>certificates := (certificates s3)(t :=
                   \<lparr>recipient = r, contentHash = h, cohort = c, issuedAt = ts, isRevoked = False\<rparr>),
                participantCertificates := (participantCertificates s3)(r :=
                   participantCertificates s3 r @ [t])\<rparr>))"
  shows "ledger P s'"
proof -
  from inv have cnt: "tokenIdCounter s3 = of_nat (length (minted s3))"
    and len: "length (minted s3) \<le> 2 ^ 256"
    and ids: "map fst (minted s3) = map of_nat [1 ..< Suc (length (minted s3))]"
    and dist: "distinct (map fst (minted s3))"
    and ex: "\<And>u. owners s3 u \<noteq> 0 \<longleftrightarrow> u \<in> fst ` set (minted s3)"
    and own: "\<And>u q. (u, q) \<in> set (minted s3) \<Longrightarrow> owners s3 u = q"
    and pend: "set (minted s3) = set (completed s3) \<union> insert (t, r) P"
      "set (completed s3) \<inter> insert (t, r) P = {}"
    and dc: "distinct (map fst (completed s3))"
    and rec: "\<And>u q. (u, q) \<in> set (completed s3) \<Longrightarrow> recipient (certificates s3 u) = q"
    and idx: "\<And>q. participantCertificates s3 q = map fst (filter (\<lambda>p. snd p = q) (completed s3))"
    unfolding ledger_def by blast+
  have m: "minted s' = minted s3" and c': "completed s' = completed s3 @ [(t, r)]"
    and o: "owners s' = owners s3" and k: "tokenIdCounter s' = tokenIdCounter s3"
    by (simp_all add: s')
  have tin: "(t, r) \<in> set (minted s3)" using pend(1) by blast
  have other: "u \<noteq> t" if "(u, q) \<in> set (completed s3)" for u q
  proof
    assume "u = t"
    with that pend(1) have "(t, q) \<in> set (minted s3)" by blast
    with tin dist have "q = r" by (meson eq_key_imp_eq_value)
    with that \<open>u = t\<close> pend(2) show False by blast
  qed
  have 7: "set (minted s') = set (completed s') \<union> P"
    using pend(1) by (auto simp: m c')
  have 8: "set (completed s') \<inter> P = {}"
    using pend(2) np by (auto simp: c')
  have 9: "recipient (certificates s' u) = q" if "(u, q) \<in> set (completed s')" for u q
  proof (cases "(u, q) \<in> set (completed s3)")
    case True
    with other have "u \<noteq> t" by blast
    with rec [OF True] show ?thesis by (simp add: s')
  next
    case False
    with that have "u = t" "q = r" by (auto simp: c')
    then show ?thesis by (simp add: s')
  qed
  have 10: "participantCertificates s' q = map fst (filter (\<lambda>p. snd p = q) (completed s'))" for q
    using idx by (simp add: c' s')
  have 11: "distinct (map fst (completed s'))"
    using dc other by (force simp: c')
  show ?thesis
    unfolding ledger_def m o k
    using cnt len ids dist ex own 7 8 9 10 11 unfolding m by blast
qed

lemma issueCertificate_ledger:
  assumes env: "sound_env m" and iss: "issueCertificate m s r uri h c = (Inr t, s')"
    and inv: "ledger P s"
  shows "ledger P s'"
proof -
  from iss obtain s2 s3 where fx:
    "t = tokenIdCounter s + 1" "r \<noteq> 0" "owners s t = 0"
    "s2 = emit (Transfer 0 r t)
            (s\<lparr>tokenIdCounter := t, balances := (balances s)(r := balances s r + 1),
               owners := (owners s)(t := r)\<rparr>)"
    "checkOnERC721Received m s2 r = (Inr True, s3)"
    "s' = emit (Locked t) (emit (CertificateIssued t r c h (timestamp m))
            ((emit (MetadataUpdate t) (s3\<lparr>tokenURIs := (tokenURIs s3)(t := uri)\<rparr>))
               \<lparr>certificates := (certificates s3)(t :=
                   \<lparr>recipient = r, contentHash = h, cohort = c, issuedAt = timestamp m, isRevoked = False\<rparr>),
                participantCertificates := (participantCertificates s3)(r :=
                   participantCertificates s3 r @ [t])\<rparr>))"
    by (rule issueCertificate_Inr) blast
  note a = ledger_after_mint [OF inv fx(3) fx(2) fx(1) fx(4)]
  have "ledger (insert (t, r) P) s3"
    by (rule checkOnERC721Received_sound(2) [OF env fx(5) a(1)])
  from ledger_after_record [OF this a(2) fx(6)] show ?thesis .
qed

lemma execute_sound:
  assumes env: "sound_env m" and ex: "execute m s c = (Inr v, s')"
  shows "follows s s'" and "ledger P s \<Longrightarrow> ledger P s'"
proof -
  have "follows s s' \<and> (ledger P s \<longrightarrow> ledger P s')"
  proof (cases c)
    case (RegisterParticipant a nm)
    with ex obtain u where "registerParticipant m s a nm = (Inr u, s')"
      by (auto simp: returning_Inr)
    from registerParticipant_quiet [OF this] show ?thesis
      by (auto intro: quiet_follows quiet_ledger)
  next
    case (IssueCertificate r uri h co)
    with ex obtain t where "issueCertificate m s r uri h co = (Inr t, s')"
      by (auto simp: returning_Inr)
    from issueCertificate_follows [OF env this] issueCertificate_ledger [OF env this]
    show ?thesis by blast
  next
    case (RevokeCertificate t)
    with ex obtain u where "revokeCertificate m s t = (Inr u, s')"
      by (auto simp: returning_Inr)
    from revokeCertificate_quiet [OF this] show ?thesis
      by (auto intro: quiet_follows quiet_ledger)
  next
    case (TransferFrom f to t)
    with ex show ?thesis by (simp add: returning_Inr transferFrom_Inl)
  next
    case (SafeTransferFrom f to t)
    with ex show ?thesis
      by (simp add: returning_Inr safeTransferFrom_def safeTransferFrom_data_Inl transferFrom_Inl)
  next
    case (SafeTransferFromData f to t d)
    with ex show ?thesis
      by (simp add: returning_Inr safeTransferFrom_data_Inl transferFrom_Inl)
  next
    case (Approve to t)
    with ex obtain u where "approve m s to t = (Inr u, s')"
      by (auto simp: returning_Inr)
    from approve_quiet [OF this] show ?thesis
      by (auto intro: quiet_follows quiet_ledger)
  next
    case (SetApprovalForAll operator b)
    with ex obtain u where "setApprovalForAll m s operator b = (Inr u, s')"
      by (auto simp: returning_Inr)
    from setApprovalForAll_quiet [OF this] show ?thesis
      by (auto intro: quiet_follows quiet_ledger)
  next
    case (GrantRole role a)
    with ex obtain u where "grantRole m s role a = (Inr u, s')"
      by (auto simp: returning_Inr)
    from grantRole_quiet [OF this] show ?thesis
      by (auto intro: quiet_follows quiet_ledger)
  next
    case (RevokeRole role a)
    with ex obtain u where "revokeRole m s role a = (Inr u, s')"
      by (auto simp: returning_Inr)
    from revokeRole_quiet [OF this] show ?thesis
      by (auto intro: quiet_follows quiet_ledger)
  next
    case (RenounceRole role a)
    with ex obtain u where "renounceRole m s role a = (Inr u, s')"
      by (auto simp: returning_Inr)
    from renounceRole_quiet [OF this] show ?thesis
      by (auto intro: quiet_follows quiet_ledger)
  qed
  then show "follows s s'" and "ledger P s \<Longrightarrow> ledger P s'" by blast+
qed

lemma external_cases:
  obtains (reverted) e where "fst r = Inl e" "external s r = (Inl e, s)"
  | (returned) v where "fst r = Inr v" "external s r = r"
  by (cases "fst r") (auto simp: external_def)

lemma perform_environment:
  "perform (Call a c code) ts s = external s (execute (environment a ts code) s c)"
  by (simp add: environment_def)

lemma external_sound:
  assumes "sound_env m"
  shows "follows s (snd (external s (execute m s c)))"
    and "ledger P s \<Longrightarrow> ledger P (snd (external s (execute m s c)))"
proof -
  have "follows s (snd (external s (execute m s c)))
      \<and> (ledger P s \<longrightarrow> ledger P (snd (external s (execute m s c))))"
  proof (cases "execute m s c" s rule: external_cases)
    case (reverted e)
    then show ?thesis by (simp add: follows_refl)
  next
    case (returned v)
    then have "execute m s c = (Inr v, snd (execute m s c))" by (metis prod.collapse)
    from execute_sound [OF assms this] returned show ?thesis by simp
  qed
  then show "follows s (snd (external s (execute m s c)))"
    and "ledger P s \<Longrightarrow> ledger P (snd (external s (execute m s c)))" by blast+
qed

lemma foldl_sound:
  assumes "\<And>f. f \<in> set fs \<Longrightarrow> \<forall>s. follows s (snd (f s)) \<and> (\<forall>P. ledger P s \<longrightarrow> ledger P (snd (f s)))"
  shows "follows s (foldl (\<lambda>s f. snd (f s)) s fs)
     \<and> (\<forall>P. ledger P s \<longrightarrow> ledger P (foldl (\<lambda>s f. snd (f s)) s fs))"
  using assms
proof (induction fs arbitrary: s)
  case Nil
  show ?case by (simp add: follows_refl)
next
  case (Cons f fs)
  have f: "follows s (snd (f s))" "\<And>P. ledger P s \<Longrightarrow> ledger P (snd (f s))"
    using Cons.prems [of f] by simp_all
  have rest: "follows (snd (f s)) (foldl (\<lambda>s f. snd (f s)) (snd (f s)) fs)
     \<and> (\<forall>P. ledger P (snd (f s)) \<longrightarrow> ledger P (foldl (\<lambda>s f. snd (f s)) (snd (f s)) fs))"
    by (rule Cons.IH) (use Cons.prems in simp)
  with f show ?case by (auto intro: follows_trans)
qed

lemma receivers_sound:
  "(\<forall>ts cb. called code ts = Some cb \<longrightarrow> sound cb)"
  "(\<forall>ts s. follows s (snd (perform act ts s)) \<and> (\<forall>P. ledger P s \<longrightarrow> ledger P (snd (perform act ts s))))"
proof (induction code and act)
  case NoCode
  show ?case by simp
next
  case (Code script answer)
  show ?case
  proof (intro allI impI)
    fix ts cb assume "called (Code script answer) ts = Some cb"
    then have cb: "cb = (\<lambda>s. (answer, foldl (\<lambda>s f. snd (f s)) s (map (\<lambda>a. perform a ts) script)))"
      by simp
    have h: "\<forall>s. follows s (snd (f s)) \<and> (\<forall>P. ledger P s \<longrightarrow> ledger P (snd (f s)))"
      if "f \<in> set (map (\<lambda>a. perform a ts) script)" for f
      using that Code.IH by auto
    have "follows s (foldl (\<lambda>s f. snd (f s)) s (map (\<lambda>a. perform a ts) script))
     \<and> (\<forall>P. ledger P s \<longrightarrow> ledger P (foldl (\<lambda>s f. snd (f s)) s (map (\<lambda>a. perform a ts) script)))"
      for s
      by (rule foldl_sound) (rule h)
    then show "sound cb"
      unfolding sound_def cb by simp
  qed
next
  case (Call a c code)
  have env: "sound_env \<lparr>sender = a, timestamp = ts, onERC721Received = (\<lambda>_. called code ts)\<rparr>" for ts
    using Call.IH by (simp add: sound_env_def)
  show ?case
    using external_sound [OF env] by simp
qed

lemma environment_sound: "sound_env (environment a ts code)"
  using receivers_sound(1) [of code] by (simp add: sound_env_def environment_def)

lemma step_sound:
  "follows s (step s tx)" "ledger P s \<Longrightarrow> ledger P (step s tx)"
  using receivers_sound(2) [of "snd tx"] by (simp_all add: step_def)

lemma run_append: "run s (xs @ ys) = run (run s xs) ys"
  by (induction xs arbitrary: s) auto

lemma run_sound:
  "follows s (run s txs)" "ledger P s \<Longrightarrow> ledger P (run s txs)"
proof -
  have "follows s (run s txs) \<and> (ledger P s \<longrightarrow> ledger P (run s txs))"
  proof (induction txs arbitrary: s)
    case Nil
    show ?case by (simp add: follows_refl)
  next
    case (Cons tx txs)
    from Cons.IH [of "step s tx"] step_sound(1) [of s tx] step_sound(2) [of P s tx]
    show ?case by (auto intro: follows_trans)
  qed
  then show "follows s (run s txs)" "ledger P s \<Longrightarrow> ledger P (run s txs)" by blast+
qed

lemma ledger_constructor: "ledger {} (constructor d)"
  by (simp add: ledger_def constructor_def grantRole_internal_def empty_storage_def hasRole_def
      minted_def completed_def emit_def)

lemma ledger_run: "ledger {} (run (constructor d) txs)"
  by (rule run_sound(2) [OF ledger_constructor])

section \<open>Consequences of the invariant\<close>

lemma ledger_facts:
  assumes "ledger P s"
  shows "tokenIdCounter s = of_nat (length (minted s))"
    and "map fst (minted s) = map of_nat [1 ..< Suc (length (minted s))]"
    and "distinct (map fst (minted s))"
    and "owners s t \<noteq> 0 \<longleftrightarrow> t \<in> fst ` set (minted s)"
    and "(t, r) \<in> set (minted s) \<Longrightarrow> owners s t = r"
    and "set (minted s) = set (completed s) \<union> P"
    and "(t, r) \<in> set (completed s) \<Longrightarrow> recipient (certificates s t) = r"
    and "participantCertificates s r = map fst (filter (\<lambda>p. snd p = r) (completed s))"
    and "distinct (map fst (completed s))"
  using assms unfolding ledger_def by blast+


lemma ledger_nth:
  assumes "ledger P s" and "k < length (minted s)" and "Suc k < 2 ^ 256"
  shows "unat (fst (minted s ! k)) = Suc k"
proof -
  note ids = ledger_facts(2) [OF assms(1)]
  have nth: "[1 ..< Suc (length (minted s))] ! k = Suc k" using assms(2) by (simp del: upt_Suc)
  have "fst (minted s ! k) = map fst (minted s) ! k" using assms(2) by simp
  also have "\<dots> = map of_nat [1 ..< Suc (length (minted s))] ! k" by (subst ids) simp
  also have "\<dots> = (of_nat ([1 ..< Suc (length (minted s))] ! k) :: uint256)"
    using assms(2) by (simp del: upt_Suc of_nat_Suc)
  finally have "fst (minted s ! k) = (of_nat (Suc k) :: uint256)" unfolding nth .
  moreover have "unat (of_nat (Suc k) :: uint256) = Suc k"
    by (rule of_nat_inverse [OF refl]) (use assms(3) in simp)
  ultimately show ?thesis by (simp only:)
qed

lemma follows_token:
  assumes "follows s s'" and "owners s t \<noteq> 0"
  shows "owners s' t = owners s t"
    and "recipient (certificates s' t) = recipient (certificates s t)"
    and "contentHash (certificates s' t) = contentHash (certificates s t)"
    and "cohort (certificates s' t) = cohort (certificates s t)"
    and "issuedAt (certificates s' t) = issuedAt (certificates s t)"
    and "isRevoked (certificates s t) \<Longrightarrow> isRevoked (certificates s' t)"
  using assms unfolding follows_def by blast+

lemma follows_participant:
  assumes "follows s s'" and "isRegistered (participants s a)"
  shows "participants s' a = participants s a"
  using assms unfolding follows_def by blast

lemma minted_owner:
  assumes "(t, r) \<in> set (minted (run (constructor d) txs))"
  shows "owners (run (constructor d) txs) t = r" and "r \<noteq> 0"
    and "recipient (certificates (run (constructor d) txs) t) = r"
proof -
  note inv = ledger_run [of d txs]
  show own: "owners (run (constructor d) txs) t = r"
    by (rule ledger_facts(5) [OF inv assms])
  from assms have "t \<in> fst ` set (minted (run (constructor d) txs))" by force
  with ledger_facts(4) [OF inv, of t] own show "r \<noteq> 0" by simp
  from ledger_facts(6) [OF inv] assms
  have "(t, r) \<in> set (completed (run (constructor d) txs))" by simp
  from ledger_facts(7) [OF inv this]
  show "recipient (certificates (run (constructor d) txs) t) = r" .
qed


lemma minted_run_append:
  "set (minted (run s txs)) \<subseteq> set (minted (run s (txs @ txs')))"
proof -
  have "follows (run s txs) (run (run s txs) txs')" by (rule run_sound(1))
  then obtain evs where "logs (run s (txs @ txs')) = logs (run s txs) @ evs"
    unfolding follows_def run_append by blast
  then show ?thesis by (auto simp: minted_def)
qed

lemma revokeCertificate_Inr:
  assumes "revokeCertificate m s t = (Inr u, s')"
  shows "hasRole s ISSUER_ROLE (sender m)" and "owners s t \<noteq> 0" and "\<not> isRevoked (certificates s t)"
    and "certificates s' = (certificates s)(t := (certificates s t)\<lparr>isRevoked := True\<rparr>)"
    and "owners s' = owners s"
  using assms
  by (auto simp: revokeCertificate_def onlyRole_def exists_internal_def ownerOf_internal_def
      split: option.splits if_splits)

lemma step_environment:
  "step s (ts, Call a c code) = snd (external s (execute (environment a ts code) s c))"
  by (simp add: step_def environment_def)

lemma step_failed:
  assumes "fst (execute (environment a ts code) s c) = Inl e"
  shows "step s (ts, Call a c code) = s" and "perform (Call a c code) ts s = (Inl e, s)"
  using assms by (simp_all add: step_environment perform_environment external_def del: perform.simps)

text \<open>
  Revocation from one call to the next: \<^verbatim>\<open>revokeCertificate\<close> of a token that does not exist
  fails with "Certificate does not exist"; after a revocation that returned, another one
  fails with "Certificate already revoked"; and a flag that is set in the state between
  two transactions is set after any further transactions.
\<close>

lemma revocation_between_transactions:
  shows "hasRole s ISSUER_ROLE (sender m) \<Longrightarrow> \<not> exists_internal s t \<Longrightarrow>
           revokeCertificate m s t = (Inl (Revert ''Certificate does not exist''), s)"
    and "revokeCertificate m s t = (Inr (), s1) \<Longrightarrow> hasRole s1 ISSUER_ROLE (sender m') \<Longrightarrow>
           revokeCertificate m' s1 t = (Inl (Revert ''Certificate already revoked''), s1)"
    and "revokeCertificate m s t = (Inr (), s1) \<Longrightarrow> isRevoked (certificates (run s1 txs) t)"
    and "exists_internal s t \<Longrightarrow> isRevoked (certificates s t) \<Longrightarrow>
           isRevoked (certificates (run s txs) t)"
proof -
  show "revokeCertificate m s t = (Inl (Revert ''Certificate does not exist''), s)"
    if "hasRole s ISSUER_ROLE (sender m)" "\<not> exists_internal s t"
    using that by (simp add: revokeCertificate_def onlyRole_def)
  show 4: "isRevoked (certificates (run s txs) t)"
    if "exists_internal s t" "isRevoked (certificates s t)" for s
    using follows_token(6) [OF run_sound(1), of s t txs] that
    by (simp add: exists_internal_def ownerOf_internal_def)
  assume rv: "revokeCertificate m s t = (Inr (), s1)"
  note rx = revokeCertificate_Inr [OF rv]
  have ex: "exists_internal s1 t" using rx(2)
    by (simp add: rx(5) exists_internal_def ownerOf_internal_def)
  have fl: "isRevoked (certificates s1 t)" by (simp add: rx(4))
  show "revokeCertificate m' s1 t = (Inl (Revert ''Certificate already revoked''), s1)"
    if "hasRole s1 ISSUER_ROLE (sender m')"
    using that ex fl by (simp add: revokeCertificate_def onlyRole_def)
  show "isRevoked (certificates (run s1 txs) t)" using 4 [OF ex fl] .
qed

text \<open>
  In every reachable state the reverse index of an address holds the ids of the issuances
  to it, each once, in the order in which these issuances returned.
\<close>

lemma index_in_completion_order:
  "participantCertificates (run (constructor d) txs) r
     = map fst (filter (\<lambda>p. snd p = r) (completed (run (constructor d) txs)))"
  by (rule ledger_facts(8) [OF ledger_run])

section \<open>The scenarios, evaluated\<close>

text \<open>
  The scenarios are evaluated by unfolding the definitions of the functions they call.
\<close>

lemmas who_defs = sent_by_def tx_by_def deployer_def alice_def bob_def carol_def relay_def
  environment_def accepting_def

lemmas exec_defs = registerParticipant_def issueCertificate_def revokeCertificate_def
  grantRole_def getRoleAdmin_def
  onlyRole_def hasRole_def safeMint_def mint_def setTokenURI_def checkOnERC721Received_def
  exists_internal_def ownerOf_internal_def beforeTokenTransfer_def returning_def step_def
  external_def emit_def
  constructor_def grantRole_internal_def empty_storage_def ISSUER_ROLE_def DEFAULT_ADMIN_ROLE_def
  onERC721Received_selector_def

lemmas erc721_defs = transferFrom_def isApprovedOrOwner_def ownerOf_def isApprovedForAll_def
  getApproved_def

lemmas run_defs = scenario_def registration_def issuance_def revocation_def busy_scenario_def
  zero_registration_def relay_setup_def nested_issuance_def nested_revocation_def
  refused_issuance_def

lemma completed_scenario: "completed (run (constructor (sent_by deployer)) scenario) = [(1, alice)]"
  by (simp add: run_defs who_defs exec_defs completed_def)

lemma minted_busy_scenario:
  "minted (run (constructor (sent_by deployer)) busy_scenario) = [(1, alice), (2, bob), (3, alice)]"
  by (simp add: run_defs who_defs exec_defs minted_def)

lemma minted_nested_issuance:
  "minted (run (constructor (sent_by deployer)) (relay_setup @ [nested_issuance]))
     = [(1, relay), (2, relay)]"
  by (simp add: run_defs who_defs exec_defs minted_def)

lemma issuance_returns:
  "issueCertificate (environment deployer 1700000000 NoCode)
      (run (constructor (sent_by deployer)) registration) alice
      ''ipfs://X'' ''sha256:deadbeef'' ''2024-Q1''
   = (Inr 1, run (constructor (sent_by deployer)) scenario)"
  by (simp add: run_defs who_defs exec_defs)

lemma revocation_returns:
  "revokeCertificate (sent_by deployer) (run (constructor (sent_by deployer)) scenario) 1
   = (Inr (), run (constructor (sent_by deployer)) (scenario @ [revocation]))"
  by (simp add: run_defs who_defs exec_defs run_append)

section \<open>The claims\<close>

text \<open>
  In the theorems below a reachable state is \<open>run (constructor d) txs\<close>: the storage after
  deployment by any deployer \<open>d\<close> and any list \<open>txs\<close> of transactions, each by any caller
  and with any code at the receiving address. \<open>environment a ts code\<close> is the context of a
  call by \<open>a\<close> at block timestamp \<open>ts\<close> when the code at the receiving address is \<open>code\<close>.
  The body of a function returns the state it had reached, also when it fails;
  \<open>perform\<close> and \<open>step\<close> are the call in its frame, which a failure rolls back.
\<close>

text \<open>
  C1, as amended: every transfer attempt (\<^verbatim>\<open>transferFrom\<close> or either \<^verbatim>\<open>safeTransferFrom\<close>), in any
  state, by any caller and on any token, fails and leaves the storage unchanged. It fails
  with "Certificates are non-transferable" exactly when it passes the checks that ERC-721
  makes before the hook: the caller is the owner of the token or approved for it, \<open>from\<close> is
  the owner, and \<open>to\<close> is not the zero address. Otherwise it fails with the message of the
  first of these checks that it does not pass. The hook lets a mint (from the zero address)
  through, and the owner of a minted token is the address it was minted to after any
  further transactions.
\<close>

theorem transfer_attempts_always_fail:
  assumes "c = TransferFrom f to t \<or> c = SafeTransferFrom f to t \<or> c = SafeTransferFromData f to t d"
  shows "(\<exists>e. execute m s c = (Inl e, s))
    \<and> step s (ts, Call a c code) = s
    \<and> (fst (execute m s c) = Inl (Revert ''Certificates are non-transferable'') \<longleftrightarrow>
         isApprovedOrOwner s (sender m) t = Inr True \<and> ownerOf s t = Inr f \<and> to \<noteq> 0)
    \<and> fst (execute m s c) = Inl
         (if owners s t = 0 then Revert ''ERC721: invalid token ID''
          else if \<not> (sender m = owners s t \<or> operatorApprovals s (owners s t) (sender m)
                     \<or> tokenApprovals s t = sender m)
            then Revert ''ERC721: caller is not token owner or approved''
          else if owners s t \<noteq> f then Revert ''ERC721: transfer from incorrect owner''
          else if to = 0 then Revert ''ERC721: transfer to the zero address''
          else Revert ''Certificates are non-transferable'')
    \<and> beforeTokenTransfer 0 to t 1 = None
    \<and> (\<forall>dm txs txs' r. (t, r) \<in> set (minted (run (constructor dm) txs)) \<longrightarrow>
          ownerOf (run (constructor dm) (txs @ txs')) t = Inr r)"
proof -
  note ex = execute_transfer_eq [OF assms]
  have 1: "\<exists>e. execute m s c = (Inl e, s)"
    unfolding ex by (simp add: returning_def transferFrom_Inl)
  have "\<exists>e. execute (environment a ts code) s c = (Inl e, s)"
    unfolding ex by (simp add: returning_def transferFrom_Inl)
  then have 2: "step s (ts, Call a c code) = s"
    by (auto simp: step_def perform_environment external_def simp del: perform.simps)
  have 3: "fst (execute m s c) = Inl (Revert ''Certificates are non-transferable'') \<longleftrightarrow>
         isApprovedOrOwner s (sender m) t = Inr True \<and> ownerOf s t = Inr f \<and> to \<noteq> 0"
    unfolding ex passes_checks_iff by (simp add: returning_def transferFrom_Inl)
  have 4: "fst (execute m s c) = Inl
         (if owners s t = 0 then Revert ''ERC721: invalid token ID''
          else if \<not> (sender m = owners s t \<or> operatorApprovals s (owners s t) (sender m)
                     \<or> tokenApprovals s t = sender m)
            then Revert ''ERC721: caller is not token owner or approved''
          else if owners s t \<noteq> f then Revert ''ERC721: transfer from incorrect owner''
          else if to = 0 then Revert ''ERC721: transfer to the zero address''
          else Revert ''Certificates are non-transferable'')"
    unfolding ex by (simp add: returning_def transferFrom_Inl)
  have 5: "beforeTokenTransfer 0 to t 1 = None" by (simp add: beforeTokenTransfer_def)
  have 6: "ownerOf (run (constructor dm) (txs @ txs')) t = Inr r"
    if "(t, r) \<in> set (minted (run (constructor dm) txs))" for dm txs txs' r
  proof -
    from that minted_run_append have "(t, r) \<in> set (minted (run (constructor dm) (txs @ txs')))"
      by blast
    from minted_owner(1,2) [OF this] show ?thesis
      by (simp add: ownerOf_def ownerOf_internal_def)
  qed
  from 1 2 3 4 5 6 show ?thesis by blast
qed

theorem transfer_attempts_always_fail_witness:
  "isApprovedOrOwner (run (constructor (sent_by deployer)) scenario) (sender (sent_by alice)) 1 = Inr True
   \<and> ownerOf (run (constructor (sent_by deployer)) scenario) 1 = Inr alice \<and> bob \<noteq> 0
   \<and> (1, alice) \<in> set (minted (run (constructor (sent_by deployer)) scenario))
   \<and> execute (sent_by alice) (run (constructor (sent_by deployer)) scenario) (TransferFrom alice bob 1)
       = (Inl (Revert ''Certificates are non-transferable''), run (constructor (sent_by deployer)) scenario)
   \<and> step (run (constructor (sent_by deployer)) scenario) (tx_by alice (TransferFrom alice bob 1))
       = run (constructor (sent_by deployer)) scenario
   \<and> ownerOf (run (constructor (sent_by deployer))
        (scenario @ [tx_by alice (TransferFrom alice bob 1)])) 1 = Inr alice"
proof -
  let ?s = "run (constructor (sent_by deployer)) scenario"
  have a: "isApprovedOrOwner ?s (sender (sent_by alice)) 1 = Inr True"
    by (simp add: run_defs who_defs exec_defs erc721_defs)
  have b: "ownerOf ?s 1 = Inr alice"
    by (simp add: run_defs who_defs exec_defs erc721_defs)
  have c: "bob \<noteq> 0" by (simp add: bob_def)
  have d: "(1, alice) \<in> set (minted ?s)"
    by (simp add: run_defs who_defs exec_defs minted_def)
  have e: "TransferFrom alice bob 1 = TransferFrom alice bob 1
      \<or> TransferFrom alice bob 1 = SafeTransferFrom alice bob 1
      \<or> TransferFrom alice bob 1 = SafeTransferFromData alice bob 1 []" by simp
  note th = transfer_attempts_always_fail [OF e, of "sent_by alice" ?s 1700000000 alice NoCode]
  from th a b c have f: "fst (execute (sent_by alice) ?s (TransferFrom alice bob 1))
      = Inl (Revert ''Certificates are non-transferable'')" by blast
  from th obtain e' where "execute (sent_by alice) ?s (TransferFrom alice bob 1) = (Inl e', ?s)" by blast
  with f have g: "execute (sent_by alice) ?s (TransferFrom alice bob 1)
      = (Inl (Revert ''Certificates are non-transferable''), ?s)" by simp
  from th have h: "step ?s (tx_by alice (TransferFrom alice bob 1)) = ?s" by (simp add: tx_by_def)
  from th d have i: "ownerOf (run (constructor (sent_by deployer))
        (scenario @ [tx_by alice (TransferFrom alice bob 1)])) 1 = Inr alice" by blast
  from a b c d g h i show ?thesis by blast
qed

text \<open>
  C1 as stated fails for a caller who is neither the owner nor approved: Bob's attempt to
  move Alice's certificate 1 is rejected by \<^verbatim>\<open>ERC721.transferFrom\<close> itself, with its own
  message, before the hook runs.
\<close>

theorem transfer_by_stranger_counterexample:
  "(1, alice) \<in> set (completed (run (constructor (sent_by deployer)) scenario))
   \<and> fst (perform (Call bob (TransferFrom alice bob 1) NoCode) 1700000000
        (run (constructor (sent_by deployer)) scenario))
       = Inl (Revert ''ERC721: caller is not token owner or approved'')
   \<and> fst (perform (Call bob (TransferFrom alice bob 1) NoCode) 1700000000
        (run (constructor (sent_by deployer)) scenario))
       \<noteq> Inl (Revert ''Certificates are non-transferable'')"
proof -
  have "fst (perform (Call bob (TransferFrom alice bob 1) NoCode) 1700000000
        (run (constructor (sent_by deployer)) scenario))
       = Inl (Revert ''ERC721: caller is not token owner or approved'')"
    by (simp add: run_defs who_defs exec_defs erc721_defs)
  then show ?thesis by (simp add: completed_scenario)
qed

text \<open>
  C2: token ids are allocated 1, 2, 3, ... without gaps. In every reachable state the k-th
  mint of the log, which is the k-th \<^verbatim>\<open>issueCertificate\<close> call that succeeded, in the order in
  which these calls were made, has the id k (for k in the range of \<^verbatim>\<open>uint256\<close>, the type of a
  token id); no id is minted twice, none is returned twice, and the ids returned are the
  ids minted. Every returning call, made from outside or from \<^verbatim>\<open>onERC721Received\<close> during
  another issuance, returns the counter it found plus one, logs the mint of that id first
  and its \<^verbatim>\<open>CertificateIssued\<close> last. (A call made from the callback of another issuance is
  made after that one and returns before it.)
\<close>

theorem tokenId_allocation_sequential:
  "(\<forall>k. k < length (minted (run (constructor d) txs)) \<and> Suc k < 2 ^ 256 \<longrightarrow>
        unat (fst (minted (run (constructor d) txs) ! k)) = Suc k)
   \<and> distinct (map fst (minted (run (constructor d) txs)))
   \<and> distinct (map fst (completed (run (constructor d) txs)))
   \<and> set (completed (run (constructor d) txs)) = set (minted (run (constructor d) txs))
   \<and> (\<forall>a ts code s r uri h c t s'.
         issueCertificate (environment a ts code) s r uri h c = (Inr t, s') \<longrightarrow>
           t = tokenIdCounter s + 1 \<and>
           (\<exists>evs. logs s' = logs s @ Transfer 0 r t # evs @
              [MetadataUpdate t, CertificateIssued t r c h ts, Locked t]))"
proof -
  note inv = ledger_run [of d txs]
  have 1: "\<forall>k. k < length (minted (run (constructor d) txs)) \<and> Suc k < 2 ^ 256 \<longrightarrow>
        unat (fst (minted (run (constructor d) txs) ! k)) = Suc k"
    using ledger_nth [OF inv] by blast
  have 4: "set (completed (run (constructor d) txs)) = set (minted (run (constructor d) txs))"
    using ledger_facts(6) [OF inv] by simp
  have 5: "t = tokenIdCounter s + 1 \<and>
           (\<exists>evs. logs s' = logs s @ Transfer 0 r t # evs @
              [MetadataUpdate t, CertificateIssued t r c h ts, Locked t])"
    if iss: "issueCertificate (environment a ts code) s r uri h c = (Inr t, s')"
    for a ts code s r uri h c t s'
  proof -
    from iss obtain s2 s3 where fx:
      "t = tokenIdCounter s + 1"
      "s2 = emit (Transfer 0 r t)
            (s\<lparr>tokenIdCounter := t, balances := (balances s)(r := balances s r + 1),
               owners := (owners s)(t := r)\<rparr>)"
      "checkOnERC721Received (environment a ts code) s2 r = (Inr True, s3)"
      "s' = emit (Locked t) (emit (CertificateIssued t r c h (timestamp (environment a ts code)))
            ((emit (MetadataUpdate t) (s3\<lparr>tokenURIs := (tokenURIs s3)(t := uri)\<rparr>))
               \<lparr>certificates := (certificates s3)(t :=
                   \<lparr>recipient = r, contentHash = h, cohort = c,
                    issuedAt = timestamp (environment a ts code), isRevoked = False\<rparr>),
                participantCertificates := (participantCertificates s3)(r :=
                   participantCertificates s3 r @ [t])\<rparr>))"
      by (rule issueCertificate_Inr) blast
    from checkOnERC721Received_sound(1) [OF environment_sound fx(3)]
    obtain evs where "logs s3 = logs s2 @ evs" unfolding follows_def by blast
    then have "logs s' = logs s @ Transfer 0 r t # evs @
              [MetadataUpdate t, CertificateIssued t r c h ts, Locked t]"
      by (simp add: fx(2,4) environment_def)
    with fx(1) show ?thesis by blast
  qed
  from 1 ledger_facts(3) [OF inv] ledger_facts(9) [OF inv] 4 5 show ?thesis by blast
qed

theorem tokenId_allocation_sequential_witness:
  "(2::nat) < length (minted (run (constructor (sent_by deployer)) busy_scenario)) \<and> Suc 2 < 2 ^ 256
   \<and> unat (fst (minted (run (constructor (sent_by deployer)) busy_scenario) ! 2)) = Suc 2
   \<and> (1::nat) < length (minted (run (constructor (sent_by deployer)) (relay_setup @ [nested_issuance])))
   \<and> unat (fst (minted (run (constructor (sent_by deployer)) (relay_setup @ [nested_issuance])) ! 1)) = Suc 1
   \<and> issueCertificate (environment deployer 1700000000 NoCode)
        (run (constructor (sent_by deployer)) registration) alice
        ''ipfs://X'' ''sha256:deadbeef'' ''2024-Q1''
      = (Inr 1, run (constructor (sent_by deployer)) scenario)
   \<and> 1 = tokenIdCounter (run (constructor (sent_by deployer)) registration) + 1"
proof -
  have h: "(2::nat) < length (minted (run (constructor (sent_by deployer)) busy_scenario)) \<and> Suc 2 < 2 ^ 256"
    by (simp add: minted_busy_scenario)
  have h2: "(1::nat) < length (minted (run (constructor (sent_by deployer)) (relay_setup @ [nested_issuance])))
      \<and> Suc 1 < 2 ^ 256"
    by (simp add: minted_nested_issuance)
  from tokenId_allocation_sequential [of "sent_by deployer" busy_scenario] h
  have a: "unat (fst (minted (run (constructor (sent_by deployer)) busy_scenario) ! 2)) = Suc 2"
    by blast
  from tokenId_allocation_sequential [of "sent_by deployer" "relay_setup @ [nested_issuance]"] h2
  have b: "unat (fst (minted (run (constructor (sent_by deployer)) (relay_setup @ [nested_issuance])) ! 1)) = Suc 1"
    by blast
  from tokenId_allocation_sequential [of "sent_by deployer" "[]"] issuance_returns
  have c: "1 = tokenIdCounter (run (constructor (sent_by deployer)) registration) + 1"
    by blast
  from h h2 a b c issuance_returns show ?thesis by blast
qed

text \<open>
  C3: when \<^verbatim>\<open>issueCertificate(r, uri, hash, cohort)\<close> returns \<open>t\<close>, whatever the receiver did
  during the call, \<^verbatim>\<open>verifyCertificate(t)\<close> returns (true, r, hash, cohort, issuedAt), where
  issuedAt is the block timestamp of the issuance (positive whenever that timestamp is);
  after a successful \<^verbatim>\<open>revokeCertificate(t)\<close>, directly or with other transactions before and
  after it, it returns the same tuple with false in the first place.
\<close>

theorem verifyCertificate_round_trip:
  assumes "issueCertificate m s r uri h c = (Inr t, s1)"
  shows "verifyCertificate s1 t = Inr (True, r, h, c, timestamp m)
    \<and> (0 < timestamp m \<longrightarrow> 0 < issuedAt (certificates s1 t))
    \<and> (\<forall>m' s2. revokeCertificate m' s1 t = (Inr (), s2) \<longrightarrow>
          verifyCertificate s2 t = Inr (False, r, h, c, timestamp m))
    \<and> (\<forall>m' txs s2 txs'. revokeCertificate m' (run s1 txs) t = (Inr (), s2) \<longrightarrow>
          verifyCertificate (run s2 txs') t = Inr (False, r, h, c, timestamp m))"
proof -
  from assms obtain s2 s3 where fx:
    "owners s3 t \<noteq> 0"
    "s1 = emit (Locked t) (emit (CertificateIssued t r c h (timestamp m))
            ((emit (MetadataUpdate t) (s3\<lparr>tokenURIs := (tokenURIs s3)(t := uri)\<rparr>))
               \<lparr>certificates := (certificates s3)(t :=
                   \<lparr>recipient = r, contentHash = h, cohort = c,
                    issuedAt = timestamp m, isRevoked = False\<rparr>),
                participantCertificates := (participantCertificates s3)(r :=
                   participantCertificates s3 r @ [t])\<rparr>))"
    by (rule issueCertificate_Inr) blast
  have own: "owners s1 t \<noteq> 0" using fx(1) by (simp add: fx(2))
  have cert: "certificates s1 t =
      \<lparr>recipient = r, contentHash = h, cohort = c, issuedAt = timestamp m, isRevoked = False\<rparr>"
    by (simp add: fx(2))
  have 1: "verifyCertificate s1 t = Inr (True, r, h, c, timestamp m)"
    using own by (simp add: verifyCertificate_def exists_internal_def ownerOf_internal_def cert)
  have 2: "0 < timestamp m \<longrightarrow> 0 < issuedAt (certificates s1 t)" by (simp add: cert)
  have 4: "verifyCertificate (run s2 txs') t = Inr (False, r, h, c, timestamp m)"
    if rv: "revokeCertificate m' (run s1 txs) t = (Inr (), s2)" for m' txs s2 txs'
  proof -
    let ?s = "run s1 txs"
    note k = follows_token [OF run_sound(1) [of s1 txs] own]
    note rx = revokeCertificate_Inr [OF rv]
    have own2: "owners s2 t \<noteq> 0" using rx(2) by (simp add: rx(5))
    have c2: "certificates s2 t = (certificates ?s t)\<lparr>isRevoked := True\<rparr>" by (simp add: rx(4))
    note k2 = follows_token [OF run_sound(1) [of s2 txs'] own2]
    have "owners (run s2 txs') t \<noteq> 0" using k2(1) own2 by simp
    moreover have "isRevoked (certificates (run s2 txs') t)" using k2(6) by (simp add: c2)
    moreover have "recipient (certificates (run s2 txs') t) = r"
      "contentHash (certificates (run s2 txs') t) = h"
      "cohort (certificates (run s2 txs') t) = c"
      "issuedAt (certificates (run s2 txs') t) = timestamp m"
      using k k2 by (simp_all add: c2 cert)
    ultimately show ?thesis
      by (simp add: verifyCertificate_def exists_internal_def ownerOf_internal_def Let_def)
  qed
  have 3: "verifyCertificate s2 t = Inr (False, r, h, c, timestamp m)"
    if "revokeCertificate m' s1 t = (Inr (), s2)" for m' s2
    using 4 [of m' "[]" s2 "[]"] that by simp
  from 1 2 3 4 show ?thesis by blast
qed

theorem verifyCertificate_round_trip_witness:
  "issueCertificate (environment deployer 1700000000 NoCode)
      (run (constructor (sent_by deployer)) registration) alice
      ''ipfs://X'' ''sha256:deadbeef'' ''2024-Q1''
     = (Inr 1, run (constructor (sent_by deployer)) scenario)
   \<and> (0::uint256) < 1700000000
   \<and> verifyCertificate (run (constructor (sent_by deployer)) scenario) 1
       = Inr (True, alice, ''sha256:deadbeef'', ''2024-Q1'', 1700000000)
   \<and> 0 < issuedAt (certificates (run (constructor (sent_by deployer)) scenario) 1)
   \<and> revokeCertificate (sent_by deployer) (run (constructor (sent_by deployer)) scenario) 1
       = (Inr (), run (constructor (sent_by deployer)) (scenario @ [revocation]))
   \<and> verifyCertificate (run (constructor (sent_by deployer)) (scenario @ [revocation])) 1
       = Inr (False, alice, ''sha256:deadbeef'', ''2024-Q1'', 1700000000)
   \<and> verifyCertificate (run (run (constructor (sent_by deployer)) (scenario @ [revocation]))
        [issuance, revocation]) 1
       = Inr (False, alice, ''sha256:deadbeef'', ''2024-Q1'', 1700000000)"
proof -
  let ?s1 = "run (constructor (sent_by deployer)) scenario"
  have tsm: "timestamp (environment deployer 1700000000 NoCode) = 1700000000"
    by (simp add: environment_def)
  note th = verifyCertificate_round_trip [OF issuance_returns, unfolded tsm]
  have pos: "(0::uint256) < 1700000000" by simp
  from th have "\<And>m' s2. revokeCertificate m' ?s1 1 = (Inr (), s2)
      \<Longrightarrow> verifyCertificate s2 1 = Inr (False, alice, ''sha256:deadbeef'', ''2024-Q1'', 1700000000)"
    by blast
  note a = this [OF revocation_returns]
  from th have "\<And>m' txs s2 txs'. revokeCertificate m' (run ?s1 txs) 1 = (Inr (), s2)
      \<Longrightarrow> verifyCertificate (run s2 txs') 1
            = Inr (False, alice, ''sha256:deadbeef'', ''2024-Q1'', 1700000000)"
    by blast
  from this [of "sent_by deployer" "[]" _ "[issuance, revocation]"] revocation_returns
  have b: "verifyCertificate (run (run (constructor (sent_by deployer)) (scenario @ [revocation]))
        [issuance, revocation]) 1
       = Inr (False, alice, ''sha256:deadbeef'', ''2024-Q1'', 1700000000)"
    by simp
  from th pos have c: "0 < issuedAt (certificates ?s1 1)" by blast
  from a b c th pos issuance_returns revocation_returns
  show ?thesis by blast
qed

text \<open>
  C4: for a token id that no successful issuance of the run returned, \<^verbatim>\<open>verifyCertificate\<close>
  returns (it is \<open>Inr\<close>, not a revert) the tuple (false, zero address, "", "", 0).
\<close>

theorem verifyCertificate_never_issued:
  "t \<notin> fst ` set (completed (run (constructor d) txs)) \<Longrightarrow>
     verifyCertificate (run (constructor d) txs) t = Inr (False, 0, [], [], 0)"
proof -
  assume a: "t \<notin> fst ` set (completed (run (constructor d) txs))"
  note inv = ledger_run [of d txs]
  from ledger_facts(6) [OF inv] a
  have "t \<notin> fst ` set (minted (run (constructor d) txs))" by simp
  with ledger_facts(4) [OF inv, of t] have "owners (run (constructor d) txs) t = 0" by simp
  then show ?thesis
    by (simp add: verifyCertificate_def exists_internal_def ownerOf_internal_def)
qed

theorem verifyCertificate_never_issued_witness:
  "999 \<notin> fst ` set (completed (run (constructor (sent_by deployer)) scenario))
   \<and> verifyCertificate (run (constructor (sent_by deployer)) scenario) 999 = Inr (False, 0, [], [], 0)"
proof -
  have h: "999 \<notin> fst ` set (completed (run (constructor (sent_by deployer)) scenario))"
    by (simp add: completed_scenario)
  from verifyCertificate_never_issued [OF h] h show ?thesis by simp
qed

text \<open>
  C5: called by an issuer, \<^verbatim>\<open>issueCertificate\<close> fails with "Recipient not registered" for an
  unregistered recipient and, for a registered one, with "Token URI cannot be empty" or
  "Content hash cannot be empty" when that string is empty; the cohort has no influence on
  failure. A call that fails, at these checks or later, leaves the storage, the counter and
  the log as they were, so the next successful issuance returns the counter plus one.
\<close>

theorem issueCertificate_rejections:
  assumes "hasRole s ISSUER_ROLE a"
  shows "(\<not> isRegistered (participants s r) \<longrightarrow>
            issueCertificate (environment a ts code) s r uri h c
              = (Inl (Revert ''Recipient not registered''), s))
    \<and> (isRegistered (participants s r) \<and> uri = [] \<longrightarrow>
            issueCertificate (environment a ts code) s r uri h c
              = (Inl (Revert ''Token URI cannot be empty''), s))
    \<and> (isRegistered (participants s r) \<and> uri \<noteq> [] \<and> h = [] \<longrightarrow>
            issueCertificate (environment a ts code) s r uri h c
              = (Inl (Revert ''Content hash cannot be empty''), s))
    \<and> isl (fst (issueCertificate (environment a ts code) s r uri h []))
        = isl (fst (issueCertificate (environment a ts code) s r uri h c))
    \<and> (\<forall>e s'. issueCertificate (environment a ts code) s r uri h c = (Inl e, s') \<longrightarrow>
          step s (ts, Call a (IssueCertificate r uri h c) code) = s \<and>
          tokenIdCounter (step s (ts, Call a (IssueCertificate r uri h c) code)) = tokenIdCounter s \<and>
          logs (step s (ts, Call a (IssueCertificate r uri h c) code)) = logs s \<and>
          (\<forall>m' r' uri' h' c' t s''.
             issueCertificate m' (step s (ts, Call a (IssueCertificate r uri h c) code)) r' uri' h' c'
               = (Inr t, s'')
               \<longrightarrow> t = tokenIdCounter s + 1))"
proof -
  let ?m = "environment a ts code"
  have role: "hasRole s ISSUER_ROLE (sender ?m)" using assms by (simp add: environment_def)
  have 1: "\<not> isRegistered (participants s r) \<longrightarrow>
            issueCertificate ?m s r uri h c = (Inl (Revert ''Recipient not registered''), s)"
    using role by (simp add: issueCertificate_def onlyRole_def)
  have 2: "isRegistered (participants s r) \<and> uri = [] \<longrightarrow>
            issueCertificate ?m s r uri h c = (Inl (Revert ''Token URI cannot be empty''), s)"
    using role by (simp add: issueCertificate_def onlyRole_def)
  have 3: "isRegistered (participants s r) \<and> uri \<noteq> [] \<and> h = [] \<longrightarrow>
            issueCertificate ?m s r uri h c = (Inl (Revert ''Content hash cannot be empty''), s)"
    using role by (simp add: issueCertificate_def onlyRole_def)
  have 4: "isl (fst (issueCertificate m s r uri h [])) = isl (fst (issueCertificate m s r uri h c))" for m
    by (simp add: issueCertificate_def Let_def split: option.splits sum.splits prod.splits)
  have 5: "step s (ts, Call a (IssueCertificate r uri h c) code) = s \<and>
          tokenIdCounter (step s (ts, Call a (IssueCertificate r uri h c) code)) = tokenIdCounter s \<and>
          logs (step s (ts, Call a (IssueCertificate r uri h c) code)) = logs s \<and>
          (\<forall>m' r' uri' h' c' t s''.
             issueCertificate m' (step s (ts, Call a (IssueCertificate r uri h c) code)) r' uri' h' c'
               = (Inr t, s'')
               \<longrightarrow> t = tokenIdCounter s + 1)"
    if "issueCertificate ?m s r uri h c = (Inl e, s')" for e s'
  proof -
    from that have "fst (execute ?m s (IssueCertificate r uri h c)) = Inl e"
      by (simp add: returning_def)
    from step_failed(1) [OF this] have st: "step s (ts, Call a (IssueCertificate r uri h c) code) = s" .
    have "t = tokenIdCounter s + 1" if "issueCertificate m' s r' uri' h' c' = (Inr t, s'')"
      for m' r' uri' h' c' t s''
      using that by (rule issueCertificate_Inr)
    then show ?thesis unfolding st by blast
  qed
  from 1 2 3 4 [of ?m] 5 show ?thesis by blast
qed

theorem issueCertificate_rejections_witness:
  "hasRole (run (constructor (sent_by deployer)) scenario) ISSUER_ROLE deployer
   \<and> \<not> isRegistered (participants (run (constructor (sent_by deployer)) scenario) carol)
   \<and> issueCertificate (environment deployer 1700000000 NoCode)
        (run (constructor (sent_by deployer)) scenario) carol
        ''ipfs://Y'' ''sha256:00'' ''2024-Q1''
       = (Inl (Revert ''Recipient not registered''), run (constructor (sent_by deployer)) scenario)
   \<and> isRegistered (participants (run (constructor (sent_by deployer)) scenario) alice)
   \<and> issueCertificate (environment deployer 1700000000 NoCode)
        (run (constructor (sent_by deployer)) scenario) alice
        [] ''sha256:00'' ''2024-Q1''
       = (Inl (Revert ''Token URI cannot be empty''), run (constructor (sent_by deployer)) scenario)
   \<and> issueCertificate (environment deployer 1700000000 NoCode)
        (run (constructor (sent_by deployer)) scenario) alice
        ''ipfs://Y'' [] ''2024-Q1''
       = (Inl (Revert ''Content hash cannot be empty''), run (constructor (sent_by deployer)) scenario)
   \<and> step (run (constructor (sent_by deployer)) scenario)
        (tx_by deployer (IssueCertificate carol ''ipfs://Y'' ''sha256:00'' ''2024-Q1''))
       = run (constructor (sent_by deployer)) scenario
   \<and> tokenIdCounter (run (constructor (sent_by deployer)) scenario) = 1
   \<and> fst (issueCertificate (sent_by deployer)
          (step (run (constructor (sent_by deployer)) scenario)
             (tx_by deployer (IssueCertificate carol ''ipfs://Y'' ''sha256:00'' ''2024-Q1'')))
          alice ''ipfs://W'' ''sha256:02'' []) = Inr 2"
proof -
  let ?s = "run (constructor (sent_by deployer)) scenario"
  let ?m = "environment deployer 1700000000 NoCode"
  let ?tx = "(1700000000, Call deployer (IssueCertificate carol ''ipfs://Y'' ''sha256:00'' ''2024-Q1'') NoCode)"
  have role: "hasRole ?s ISSUER_ROLE deployer"
    by (simp add: run_defs who_defs exec_defs)
  have unreg: "\<not> isRegistered (participants ?s carol)"
    by (simp add: run_defs who_defs exec_defs)
  have reg: "isRegistered (participants ?s alice)"
    by (simp add: run_defs who_defs exec_defs)
  have cnt: "tokenIdCounter ?s = 1"
    by (simp add: run_defs who_defs exec_defs)
  note th = issueCertificate_rejections [OF role, of carol 1700000000 NoCode
      "''ipfs://Y''" "''sha256:00''" "''2024-Q1''"]
  note fail = th [THEN conjunct1, rule_format, OF unreg]
  note after = th [THEN conjunct2, THEN conjunct2, THEN conjunct2, THEN conjunct2, rule_format, OF fail]
  note st = after [THEN conjunct1]
  note nouri = issueCertificate_rejections [OF role, of alice 1700000000 NoCode "[]"
      "''sha256:00''" "''2024-Q1''", THEN conjunct2, THEN conjunct1, rule_format, OF conjI [OF reg refl]]
  have ne: "''ipfs://Y'' \<noteq> []" by simp
  note nohash = issueCertificate_rejections [OF role, of alice 1700000000 NoCode "''ipfs://Y''" "[]"
      "''2024-Q1''", THEN conjunct2, THEN conjunct2, THEN conjunct1, rule_format,
      OF conjI [OF reg conjI [OF ne refl]]]
  have ok: "fst (issueCertificate (sent_by deployer) ?s alice ''ipfs://W'' ''sha256:02'' []) = Inr 2"
    by (simp add: run_defs who_defs exec_defs)
  have tx: "tx_by deployer (IssueCertificate carol ''ipfs://Y'' ''sha256:00'' ''2024-Q1'') = ?tx"
    by (simp add: tx_by_def)
  have ok': "fst (issueCertificate (sent_by deployer) (step ?s ?tx) alice ''ipfs://W'' ''sha256:02'' []) = Inr 2"
    unfolding st by (rule ok)
  show ?thesis
    unfolding tx
    apply (intro conjI)
            apply (rule role)
           apply (rule unreg)
          apply (rule fail)
         apply (rule reg)
        apply (rule nouri)
       apply (rule nohash)
      apply (rule st)
     apply (rule cnt)
    apply (rule ok')
    done
qed

text \<open>
  C6: after a successful \<^verbatim>\<open>registerParticipant(a, n)\<close>, a second registration of \<open>a\<close> by an
  issuer fails with "Participant already registered" and changes nothing: \<open>a\<close> stays
  registered under the name \<open>n\<close>, also after any further transactions. With the empty name
  the call always fails and changes nothing, and for an issuer and an unregistered address
  the failure is "Name cannot be empty".
\<close>

theorem registerParticipant_rejections:
  "(registerParticipant m s a n = (Inr (), s1) \<and> hasRole s1 ISSUER_ROLE a2 \<longrightarrow>
       registerParticipant (environment a2 ts2 code2) s1 a n2
         = (Inl (Revert ''Participant already registered''), s1)
       \<and> step s1 (ts2, Call a2 (RegisterParticipant a n2) code2) = s1
       \<and> isRegistered (participants (step s1 (ts2, Call a2 (RegisterParticipant a n2) code2)) a)
       \<and> name (participants (step s1 (ts2, Call a2 (RegisterParticipant a n2) code2)) a) = n
       \<and> (\<forall>txs. isRegistered (participants (run s1 txs) a) \<and> name (participants (run s1 txs) a) = n))
   \<and> (hasRole s ISSUER_ROLE a2 \<and> \<not> isRegistered (participants s a) \<longrightarrow>
       registerParticipant (environment a2 ts2 code2) s a [] = (Inl (Revert ''Name cannot be empty''), s)
       \<and> step s (ts2, Call a2 (RegisterParticipant a []) code2) = s)
   \<and> (\<exists>e. registerParticipant m s a [] = (Inl e, s))
   \<and> step s (ts2, Call a2 (RegisterParticipant a []) code2) = s"
proof -
  let ?m2 = "environment a2 ts2 code2"
  have sm: "sender ?m2 = a2" by (simp add: environment_def)
  have 1: "registerParticipant ?m2 s1 a n2 = (Inl (Revert ''Participant already registered''), s1)
       \<and> step s1 (ts2, Call a2 (RegisterParticipant a n2) code2) = s1
       \<and> isRegistered (participants (step s1 (ts2, Call a2 (RegisterParticipant a n2) code2)) a)
       \<and> name (participants (step s1 (ts2, Call a2 (RegisterParticipant a n2) code2)) a) = n
       \<and> (\<forall>txs. isRegistered (participants (run s1 txs) a) \<and> name (participants (run s1 txs) a) = n)"
    if "registerParticipant m s a n = (Inr (), s1)" "hasRole s1 ISSUER_ROLE a2"
  proof -
    from that(1) have p: "participants s1 a = \<lparr>name = n, registeredAt = timestamp m, isRegistered = True\<rparr>"
      by (auto simp: registerParticipant_def split: option.splits if_splits)
    with that(2) have f: "registerParticipant ?m2 s1 a n2 = (Inl (Revert ''Participant already registered''), s1)"
      by (simp add: registerParticipant_def onlyRole_def sm)
    then have "fst (execute ?m2 s1 (RegisterParticipant a n2)) = Inl (Revert ''Participant already registered'')"
      by (simp add: returning_def)
    from step_failed(1) [OF this] have st: "step s1 (ts2, Call a2 (RegisterParticipant a n2) code2) = s1" .
    from p have "isRegistered (participants s1 a)" by simp
    from follows_participant [OF run_sound(1) this] p
    have "\<forall>txs. isRegistered (participants (run s1 txs) a) \<and> name (participants (run s1 txs) a) = n"
      by simp
    with f p st show ?thesis by simp
  qed
  have 3: "\<exists>e. registerParticipant m s a [] = (Inl e, s)" for m
    by (simp add: registerParticipant_def split: option.splits)
  from 3 [of ?m2] obtain e where "registerParticipant ?m2 s a [] = (Inl e, s)" by blast
  then have "fst (execute ?m2 s (RegisterParticipant a [])) = Inl e" by (simp add: returning_def)
  from step_failed(1) [OF this] have 4: "step s (ts2, Call a2 (RegisterParticipant a []) code2) = s" .
  have 2: "registerParticipant ?m2 s a [] = (Inl (Revert ''Name cannot be empty''), s)"
    if "hasRole s ISSUER_ROLE a2" "\<not> isRegistered (participants s a)"
    using that by (simp add: registerParticipant_def onlyRole_def sm)
  from 1 2 3 [of m] 4 show ?thesis by blast
qed

theorem registerParticipant_rejections_witness:
  "registerParticipant (sent_by deployer) (constructor (sent_by deployer)) alice ''Alice''
     = (Inr (), run (constructor (sent_by deployer)) registration)
   \<and> hasRole (run (constructor (sent_by deployer)) registration) ISSUER_ROLE deployer
   \<and> registerParticipant (environment deployer 1700000000 NoCode)
        (run (constructor (sent_by deployer)) registration) alice ''Alice Again''
       = (Inl (Revert ''Participant already registered''), run (constructor (sent_by deployer)) registration)
   \<and> name (participants (step (run (constructor (sent_by deployer)) registration)
        (tx_by deployer (RegisterParticipant alice ''Alice Again''))) alice) = ''Alice''
   \<and> name (participants (run (run (constructor (sent_by deployer)) registration) [issuance, revocation])
        alice) = ''Alice''
   \<and> hasRole (constructor (sent_by deployer)) ISSUER_ROLE deployer
   \<and> \<not> isRegistered (participants (constructor (sent_by deployer)) bob)
   \<and> registerParticipant (environment deployer 1700000000 NoCode) (constructor (sent_by deployer)) bob []
       = (Inl (Revert ''Name cannot be empty''), constructor (sent_by deployer))
   \<and> step (constructor (sent_by deployer)) (tx_by deployer (RegisterParticipant bob []))
       = constructor (sent_by deployer)"
proof -
  let ?s0 = "constructor (sent_by deployer)"
  let ?s1 = "run ?s0 registration"
  have reg: "registerParticipant (sent_by deployer) ?s0 alice ''Alice'' = (Inr (), ?s1)"
    by (simp add: run_defs who_defs exec_defs)
  have role1: "hasRole ?s1 ISSUER_ROLE deployer"
    by (simp add: run_defs who_defs exec_defs)
  have role0: "hasRole ?s0 ISSUER_ROLE deployer"
    by (simp add: who_defs exec_defs)
  have unreg: "\<not> isRegistered (participants ?s0 bob)"
    by (simp add: who_defs exec_defs)
  note th1 = registerParticipant_rejections [of "sent_by deployer" ?s0 alice "''Alice''" ?s1
      deployer 1700000000 NoCode "''Alice Again''", THEN conjunct1, rule_format, OF conjI [OF reg role1]]
  note th2 = registerParticipant_rejections [of "sent_by deployer" ?s0 bob "''Bob''" ?s0
      deployer 1700000000 NoCode "''Bob''", THEN conjunct2, THEN conjunct1, rule_format,
      OF conjI [OF role0 unreg]]
  note a1 = th1 [THEN conjunct1]
  note a4 = th1 [THEN conjunct2, THEN conjunct2, THEN conjunct2, THEN conjunct1]
  note a5 = th1 [THEN conjunct2, THEN conjunct2, THEN conjunct2, THEN conjunct2, rule_format,
      of "[issuance, revocation]", THEN conjunct2]
  note b1 = th2 [THEN conjunct1]
  note b2 = th2 [THEN conjunct2]
  show ?thesis
    unfolding tx_by_def
    apply (intro conjI)
            apply (rule reg)
           apply (rule role1)
          apply (rule a1)
         apply (rule a4)
        apply (rule a5)
       apply (rule role0)
      apply (rule unreg)
     apply (rule b1)
    apply (rule b2)
    done
qed

text \<open>
  C7 does not hold of the contract. \<^verbatim>\<open>issueCertificate\<close> hands the token to the recipient with
  \<^verbatim>\<open>_safeMint\<close> (line 105) before it writes the certificate record (lines 108 to 114), and no
  guard keeps the recipient's \<^verbatim>\<open>onERC721Received\<close> from calling the registry. When the
  recipient holds \<^verbatim>\<open>ISSUER_ROLE\<close> and revokes the token it is being given, the revocation
  succeeds (the token exists already) and logs \<^verbatim>\<open>CertificateRevoked\<close>; the record written next
  sets \<^verbatim>\<open>isRevoked\<close> back to false. After the transaction the certificate verifies as valid,
  and a second \<^verbatim>\<open>revokeCertificate\<close> of the same token succeeds instead of failing with
  "Certificate already revoked".
\<close>

theorem reentrant_revocation_is_overwritten:
  "logs (step (run (constructor (sent_by deployer)) relay_setup) nested_revocation)
     = logs (run (constructor (sent_by deployer)) relay_setup) @
       [Transfer 0 relay 1, CertificateRevoked 1 1700000000, MetadataUpdate 1,
        CertificateIssued 1 relay ''2024-Q1'' ''sha256:0a'' 1700000000, Locked 1]
   \<and> \<not> isRevoked (certificates (run (constructor (sent_by deployer)) (relay_setup @ [nested_revocation])) 1)
   \<and> verifyCertificate (run (constructor (sent_by deployer)) (relay_setup @ [nested_revocation])) 1
       = Inr (True, relay, ''sha256:0a'', ''2024-Q1'', 1700000000)
   \<and> fst (perform (snd revocation) (fst revocation)
            (run (constructor (sent_by deployer)) (relay_setup @ [nested_revocation]))) = Inr NoValue
   \<and> isRevoked (certificates
        (run (constructor (sent_by deployer)) (relay_setup @ [nested_revocation, revocation])) 1)"
proof -
  have 1: "logs (step (run (constructor (sent_by deployer)) relay_setup) nested_revocation)
     = logs (run (constructor (sent_by deployer)) relay_setup) @
       [Transfer 0 relay 1, CertificateRevoked 1 1700000000, MetadataUpdate 1,
        CertificateIssued 1 relay ''2024-Q1'' ''sha256:0a'' 1700000000, Locked 1]"
    by (simp add: run_defs who_defs exec_defs)
  have 2: "\<not> isRevoked (certificates (run (constructor (sent_by deployer)) (relay_setup @ [nested_revocation])) 1)"
    by (simp add: run_defs who_defs exec_defs)
  have 3: "verifyCertificate (run (constructor (sent_by deployer)) (relay_setup @ [nested_revocation])) 1
       = Inr (True, relay, ''sha256:0a'', ''2024-Q1'', 1700000000)"
    by (simp add: run_defs who_defs exec_defs verifyCertificate_def)
  have 4: "fst (perform (snd revocation) (fst revocation)
            (run (constructor (sent_by deployer)) (relay_setup @ [nested_revocation]))) = Inr NoValue"
    by (simp add: run_defs who_defs exec_defs)
  have 5: "isRevoked (certificates
        (run (constructor (sent_by deployer)) (relay_setup @ [nested_revocation, revocation])) 1)"
    by (simp add: run_defs who_defs exec_defs)
  from 1 2 3 4 5 show ?thesis by blast
qed

text \<open>
  C8: a failed operation leaves no trace. The bodies of \<^verbatim>\<open>registerParticipant\<close> and
  \<^verbatim>\<open>revokeCertificate\<close> fail only before their first write, and so does \<^verbatim>\<open>issueCertificate\<close> at
  its four checks. It can also fail later, inside \<^verbatim>\<open>_safeMint\<close>, when the counter has been
  incremented, the token minted and the receiver has made calls of its own; then, as for
  every failure of the three operations, the frame of the call restores the state in which
  it was entered: participants, certificates, reverse index, counter, roles and log are
  those before the call.
\<close>

theorem failed_operations_leave_no_trace:
  "(\<forall>e s'. registerParticipant m s a nm = (Inl e, s') \<longrightarrow> s' = s)
   \<and> (\<forall>e s'. revokeCertificate m s t = (Inl e, s') \<longrightarrow> s' = s)
   \<and> (\<not> hasRole s ISSUER_ROLE (sender m) \<or> \<not> isRegistered (participants s r) \<or> uri = [] \<or> h = []
        \<longrightarrow> (\<exists>e. issueCertificate m s r uri h co = (Inl e, s)))
   \<and> (\<forall>e. (c = RegisterParticipant a nm \<or> c = IssueCertificate r uri h co \<or> c = RevokeCertificate t)
          \<and> fst (perform (Call who c code) ts s) = Inl e \<longrightarrow>
        perform (Call who c code) ts s = (Inl e, s) \<and> step s (ts, Call who c code) = s
        \<and> participants (step s (ts, Call who c code)) = participants s
        \<and> certificates (step s (ts, Call who c code)) = certificates s
        \<and> participantCertificates (step s (ts, Call who c code)) = participantCertificates s
        \<and> tokenIdCounter (step s (ts, Call who c code)) = tokenIdCounter s
        \<and> roles (step s (ts, Call who c code)) = roles s
        \<and> logs (step s (ts, Call who c code)) = logs s)"
proof -
  have 1: "\<forall>e s'. registerParticipant m s a nm = (Inl e, s') \<longrightarrow> s' = s"
    using registerParticipant_Inl by blast
  have 2: "\<forall>e s'. revokeCertificate m s t = (Inl e, s') \<longrightarrow> s' = s"
    using revokeCertificate_Inl by blast
  have 3: "\<not> hasRole s ISSUER_ROLE (sender m) \<or> \<not> isRegistered (participants s r) \<or> uri = [] \<or> h = []
        \<longrightarrow> (\<exists>e. issueCertificate m s r uri h co = (Inl e, s))"
    by (auto simp: issueCertificate_def onlyRole_def)
  have 4: "perform (Call who c code) ts s = (Inl e, s) \<and> step s (ts, Call who c code) = s
        \<and> participants (step s (ts, Call who c code)) = participants s
        \<and> certificates (step s (ts, Call who c code)) = certificates s
        \<and> participantCertificates (step s (ts, Call who c code)) = participantCertificates s
        \<and> tokenIdCounter (step s (ts, Call who c code)) = tokenIdCounter s
        \<and> roles (step s (ts, Call who c code)) = roles s
        \<and> logs (step s (ts, Call who c code)) = logs s"
    if "fst (perform (Call who c code) ts s) = Inl e" for e
  proof -
    from that have "fst (execute (environment who ts code) s c) = Inl e"
      unfolding perform_environment by (cases "execute (environment who ts code) s c" s rule: external_cases) auto
    from step_failed [OF this] show ?thesis by simp
  qed
  from 1 2 3 4 show ?thesis by blast
qed

theorem failed_operations_leave_no_trace_witness:
  "registerParticipant (sent_by deployer) (run (constructor (sent_by deployer)) scenario) alice ''Alice B.''
     = (Inl (Revert ''Participant already registered''), run (constructor (sent_by deployer)) scenario)
   \<and> revokeCertificate (sent_by deployer) (run (constructor (sent_by deployer)) scenario) 999
     = (Inl (Revert ''Certificate does not exist''), run (constructor (sent_by deployer)) scenario)
   \<and> \<not> isRegistered (participants (run (constructor (sent_by deployer)) scenario) carol)
   \<and> (\<exists>e. issueCertificate (sent_by deployer) (run (constructor (sent_by deployer)) scenario) carol
            ''ipfs://Y'' ''sha256:00'' ''2024-Q1'' = (Inl e, run (constructor (sent_by deployer)) scenario))
   \<and> fst (issueCertificate (sent_by deployer) (run (constructor (sent_by deployer)) zero_registration) 0
            ''ipfs://X'' ''sha256:deadbeef'' ''2024-Q1'')
       = Inl (Revert ''ERC721: mint to the zero address'')
   \<and> tokenIdCounter (snd (issueCertificate (sent_by deployer)
        (run (constructor (sent_by deployer)) zero_registration) 0
            ''ipfs://X'' ''sha256:deadbeef'' ''2024-Q1'')) = 1
   \<and> tokenIdCounter (run (constructor (sent_by deployer)) zero_registration) = 0
   \<and> step (run (constructor (sent_by deployer)) zero_registration)
        (tx_by deployer (IssueCertificate 0 ''ipfs://X'' ''sha256:deadbeef'' ''2024-Q1''))
       = run (constructor (sent_by deployer)) zero_registration
   \<and> fst (perform (snd refused_issuance) (fst refused_issuance)
            (run (constructor (sent_by deployer)) relay_setup))
       = Inl (Revert ''ERC721: transfer to non ERC721Receiver implementer'')
   \<and> isRegistered (participants (snd (execute (environment deployer 1700000000
          (Code [Call relay (RegisterParticipant bob ''Bob'') NoCode] (Returned 0)))
          (run (constructor (sent_by deployer)) relay_setup)
          (IssueCertificate relay ''ipfs://A'' ''sha256:0a'' ''2024-Q1''))) bob)
   \<and> step (run (constructor (sent_by deployer)) relay_setup) refused_issuance
       = run (constructor (sent_by deployer)) relay_setup"
proof -
  let ?s = "run (constructor (sent_by deployer)) scenario"
  let ?z = "run (constructor (sent_by deployer)) zero_registration"
  let ?r = "run (constructor (sent_by deployer)) relay_setup"
  let ?code = "Code [Call relay (RegisterParticipant bob ''Bob'') NoCode] (Returned 0)"
  obtain s1 where a0: "registerParticipant (sent_by deployer) ?s alice ''Alice B.''
      = (Inl (Revert ''Participant already registered''), s1)"
    by (simp add: run_defs who_defs exec_defs)
  obtain s2 where b0: "revokeCertificate (sent_by deployer) ?s 999
      = (Inl (Revert ''Certificate does not exist''), s2)"
    by (simp add: run_defs who_defs exec_defs)
  have c: "\<not> isRegistered (participants ?s carol)"
    by (simp add: run_defs who_defs exec_defs)
  have d: "fst (issueCertificate (sent_by deployer) ?z 0 ''ipfs://X'' ''sha256:deadbeef'' ''2024-Q1'')
       = Inl (Revert ''ERC721: mint to the zero address'')"
    by (simp add: run_defs who_defs exec_defs)
  have e: "tokenIdCounter (snd (issueCertificate (sent_by deployer) ?z 0
            ''ipfs://X'' ''sha256:deadbeef'' ''2024-Q1'')) = 1"
    by (simp add: run_defs who_defs exec_defs)
  have f: "tokenIdCounter ?z = 0"
    by (simp add: run_defs who_defs exec_defs)
  have g: "fst (perform (Call deployer (IssueCertificate 0 ''ipfs://X'' ''sha256:deadbeef'' ''2024-Q1'') NoCode)
      1700000000 ?z) = Inl (Revert ''ERC721: mint to the zero address'')"
    by (simp add: run_defs who_defs exec_defs)
  have h: "fst (perform (Call deployer (IssueCertificate relay ''ipfs://A'' ''sha256:0a'' ''2024-Q1'') ?code)
      1700000000 ?r) = Inl (Revert ''ERC721: transfer to non ERC721Receiver implementer'')"
    by (simp add: run_defs who_defs exec_defs)
  have i: "isRegistered (participants (snd (execute (environment deployer 1700000000 ?code) ?r
          (IssueCertificate relay ''ipfs://A'' ''sha256:0a'' ''2024-Q1''))) bob)"
    by (simp add: run_defs who_defs exec_defs)
  note th1 = failed_operations_leave_no_trace [where m = "sent_by deployer" and s = ?s and a = alice
      and nm = "''Alice B.''" and t = 999 and r = carol and uri = "''ipfs://Y''" and h = "''sha256:00''"
      and co = "''2024-Q1''"]
  from th1 [THEN conjunct1, rule_format, OF a0] a0
  have a: "registerParticipant (sent_by deployer) ?s alice ''Alice B.''
      = (Inl (Revert ''Participant already registered''), ?s)" by simp
  from th1 [THEN conjunct2, THEN conjunct1, rule_format, OF b0] b0
  have b: "revokeCertificate (sent_by deployer) ?s 999
      = (Inl (Revert ''Certificate does not exist''), ?s)" by simp
  have c': "\<not> hasRole ?s ISSUER_ROLE (sender (sent_by deployer)) \<or> \<not> isRegistered (participants ?s carol)
      \<or> ''ipfs://Y'' = [] \<or> ''sha256:00'' = []"
    using c by blast
  note c2 = th1 [THEN conjunct2, THEN conjunct2, THEN conjunct1, rule_format, OF c']
  have dj: "IssueCertificate r uri h co = RegisterParticipant a nm
      \<or> IssueCertificate r uri h co = IssueCertificate r uri h co
      \<or> IssueCertificate r uri h co = RevokeCertificate t" for r uri h co a nm t
    by simp
  note j = failed_operations_leave_no_trace [where c = "IssueCertificate 0 ''ipfs://X'' ''sha256:deadbeef'' ''2024-Q1''"
      and r = 0 and uri = "''ipfs://X''" and h = "''sha256:deadbeef''" and co = "''2024-Q1''"
      and who = deployer and code = NoCode and ts = 1700000000 and s = ?z,
      THEN conjunct2, THEN conjunct2, THEN conjunct2, rule_format, OF conjI [OF dj g],
      THEN conjunct2, THEN conjunct1]
  note k = failed_operations_leave_no_trace [where c = "IssueCertificate relay ''ipfs://A'' ''sha256:0a'' ''2024-Q1''"
      and r = relay and uri = "''ipfs://A''" and h = "''sha256:0a''" and co = "''2024-Q1''"
      and who = deployer and code = ?code and ts = 1700000000 and s = ?r,
      THEN conjunct2, THEN conjunct2, THEN conjunct2, rule_format, OF conjI [OF dj h],
      THEN conjunct2, THEN conjunct1]
  show ?thesis
    unfolding tx_by_def refused_issuance_def fst_conv snd_conv
    apply (intro conjI)
              apply (rule a)
             apply (rule b)
            apply (rule c)
           apply (rule c2)
          apply (rule d)
         apply (rule e)
        apply (rule f)
       apply (rule j)
      apply (rule h)
     apply (rule i)
    apply (rule k)
    done
qed

text \<open>
  C9 does not hold of the contract, for the reason given at C7: the reverse index is
  appended to (line 116) after the recipient's \<^verbatim>\<open>onERC721Received\<close> has run. When the
  recipient holds \<^verbatim>\<open>ISSUER_ROLE\<close> and issues itself a second certificate from the callback,
  that call takes id 2 and appends it before the outer call, which took id 1, appends its
  own: \<^verbatim>\<open>getParticipantCertificates\<close> returns [2, 1] where the certificates were issued in
  the order 1, 2.
\<close>

theorem reentrant_issuance_reverses_index:
  "fst (perform (snd nested_issuance) (fst nested_issuance)
          (run (constructor (sent_by deployer)) relay_setup)) = Inr (TokenId 1)
   \<and> minted (run (constructor (sent_by deployer)) (relay_setup @ [nested_issuance]))
       = [(1, relay), (2, relay)]
   \<and> getParticipantCertificates
        (run (constructor (sent_by deployer)) (relay_setup @ [nested_issuance])) relay = Inr [2, 1]"
proof -
  have "fst (perform (snd nested_issuance) (fst nested_issuance)
          (run (constructor (sent_by deployer)) relay_setup)) = Inr (TokenId 1)"
    by (simp add: run_defs who_defs exec_defs)
  moreover have "getParticipantCertificates
        (run (constructor (sent_by deployer)) (relay_setup @ [nested_issuance])) relay = Inr [2, 1]"
    by (simp add: run_defs who_defs exec_defs getParticipantCertificates_def)
  ultimately show ?thesis using minted_nested_issuance by simp
qed



end
